theory Spec2Isabelle
  imports Main
begin

section \<open>Torrent entries\<close>

text \<open>
  A torrent entry as the helpers read it: \<open>quality\<close>, \<open>language\<close> and \<open>seeds\<close> are
  the fields the merge inspects; \<open>url\<close> is what the episode merge compares; \<open>peers\<close> and
  \<open>size_bytes\<close> (the source's \<open>size\<close>) are carried along.
\<close>

record torrent =
  quality :: string
  language :: string
  url :: string
  seeds :: int
  peers :: int
  size_bytes :: int

section \<open>The movie torrent merge: \<open>_updateTorrents\<close>\<close>

text \<open>
  \<^verbatim>\<open>
  _updateTorrents(torrents, foundTorrents) {
    let newTorrents = torrents
    foundTorrents.forEach(torrent => {
      const match = torrents.find(
        t => t.quality === torrent.quality && t.language === torrent.language)
      if (!match) {
        newTorrents.push(torrent)
      } else if (match.seeds > torrent.seeds) {
        // Remove the lesser one
        newTorrents = newTorrents.filter(
          t => t.quality !== torrent.quality && t.language !== torrent.language)
        newTorrents.push(match)
      }
    })
    return newTorrents
  }
  \<close>
  \<open>torrents\<close> is the incoming array and \<open>foundTorrents\<close> the stored one. The variable
  \<open>newTorrents\<close> starts as a second name of the array \<open>torrents\<close>, so a \<open>push\<close>
  through it is seen by the later \<open>torrents.find\<close>; \<open>filter\<close> builds a new array, and
  from then on \<open>newTorrents\<close> no longer shares with \<open>torrents\<close>. The state of the loop
  keeps the array \<open>torrents\<close> and, once it exists, the separate array of
  \<open>newTorrents\<close>.
\<close>

record merge_state =
  torrents_array :: "torrent list"
  rebound :: "torrent list option"

definition newTorrents :: "merge_state \<Rightarrow> torrent list" where
  "newTorrents st = (case rebound st of None \<Rightarrow> torrents_array st | Some ts \<Rightarrow> ts)"

definition push_newTorrents :: "torrent \<Rightarrow> merge_state \<Rightarrow> merge_state" where
  "push_newTorrents t st =
     (case rebound st of
        None \<Rightarrow> st\<lparr>torrents_array := torrents_array st @ [t]\<rparr>
      | Some ts \<Rightarrow> st\<lparr>rebound := Some (ts @ [t])\<rparr>)"

definition same_key :: "torrent \<Rightarrow> torrent \<Rightarrow> bool" where
  "same_key torrent t \<longleftrightarrow> quality t = quality torrent \<and> language t = language torrent"

definition kept_by_filter :: "torrent \<Rightarrow> torrent \<Rightarrow> bool" where
  "kept_by_filter torrent t \<longleftrightarrow> quality t \<noteq> quality torrent \<and> language t \<noteq> language torrent"

definition forEach_body :: "torrent \<Rightarrow> merge_state \<Rightarrow> merge_state" where
  "forEach_body torrent st =
     (case List.find (same_key torrent) (torrents_array st) of
        None \<Rightarrow> push_newTorrents torrent st
      | Some match \<Rightarrow>
          if seeds match > seeds torrent
          then push_newTorrents match
                 (st\<lparr>rebound := Some (filter (kept_by_filter torrent) (newTorrents st))\<rparr>)
          else st)"

definition updateTorrents :: "torrent list \<Rightarrow> torrent list \<Rightarrow> torrent list" where
  "updateTorrents torrents foundTorrents =
     newTorrents (fold forEach_body foundTorrents
                    \<lparr>torrents_array = torrents, rebound = None\<rparr>)"

text \<open>
  What holds of the loop state throughout, for incoming entries \<open>inc\<close> and stored
  entries \<open>fs\<close>: the array \<open>torrents\<close> keeps the incoming entries, and it and
  \<open>newTorrents\<close> hold nothing but incoming entries and stored entries without an
  incoming match.
\<close>

definition merge_inv :: "torrent list \<Rightarrow> torrent list \<Rightarrow> merge_state \<Rightarrow> bool" where
  "merge_inv inc fs st \<longleftrightarrow>
     set inc \<subseteq> set (torrents_array st) \<and>
     set (torrents_array st) \<subseteq> set inc \<union> {t \<in> set fs. \<not> (\<exists>x \<in> set inc. same_key t x)} \<and>
     set (newTorrents st) \<subseteq> set inc \<union> {t \<in> set fs. \<not> (\<exists>x \<in> set inc. same_key t x)}"

text \<open>A torrent entry with the fields the merge reads; the others are zero.\<close>

definition mk_torrent :: "string \<Rightarrow> string \<Rightarrow> string \<Rightarrow> int \<Rightarrow> torrent" where
  "mk_torrent q l u s =
     \<lparr>quality = q, language = l, url = u, seeds = s, peers = 0, size_bytes = 0\<rparr>"

section \<open>Errors and the document store\<close>

text \<open>
  What a promise can be rejected with: a \<open>TypeError\<close> raised by reading a property of
  \<open>undefined\<close>, an error of a provider client carrying an HTTP \<open>statusCode\<close>, any
  other provider error, and an error of the document store.
\<close>

datatype js_error = TypeError | HttpError nat | ProviderError | StoreError

text \<open>
  Modelled from the spec: the store is the external document database behind
  \<open>this.Model\<close> ("document upsert by id, and a distinct-values query over
  \<open>episodes.season\<close> scoped to one document"). \<open>docs\<close> maps an id to its document.
  Every operation is a suspension point that may be rejected; \<open>faults\<close> lists, for the
  operations still to come, whether each is rejected (an empty list: none is).
\<close>

record 'd store =
  docs :: "string \<Rightarrow> 'd option"
  faults :: "bool list"

definition attempt :: "'d store \<Rightarrow> bool \<times> 'd store" where
  "attempt db = (case faults db of [] \<Rightarrow> (False, db) | f # fs \<Rightarrow> (f, db\<lparr>faults := fs\<rparr>))"

definition findOne :: "string \<Rightarrow> 'd store \<Rightarrow> (js_error + 'd option) \<times> 'd store" where
  "findOne k db =
     (case attempt db of
        (True, db') \<Rightarrow> (Inl StoreError, db')
      | (False, db') \<Rightarrow> (Inr (docs db' k), db'))"

text \<open>\<open>findOneAndUpdate\<close> with \<open>upsert: true, new: true\<close>, and \<open>save\<close> of a new document.\<close>

definition findOneAndUpdate :: "string \<Rightarrow> 'd \<Rightarrow> 'd store \<Rightarrow> (js_error + 'd) \<times> 'd store" where
  "findOneAndUpdate k d db =
     (case attempt db of
        (True, db') \<Rightarrow> (Inl StoreError, db')
      | (False, db') \<Rightarrow> (Inr d, db'\<lparr>docs := (docs db')(k \<mapsto> d)\<rparr>))"

definition save :: "string \<Rightarrow> 'd \<Rightarrow> 'd store \<Rightarrow> (js_error + 'd) \<times> 'd store" where
  "save k d db = findOneAndUpdate k d db"

section \<open>Shows and episodes\<close>

text \<open>
  An episode of a show document: \<open>ep_torrents\<close> is the source's \<open>torrents\<close> object,
  from a quality (\<open>'480p'\<close>, \<open>'720p'\<close>, \<open>'1080p'\<close>) to a torrent; a key that is absent
  reads as \<open>undefined\<close>.
\<close>

record episode_doc =
  season :: int
  episode :: int
  first_aired :: int
  ep_title :: string
  ep_torrents :: "(string \<times> torrent) list"

record show_doc =
  imdb_id :: string
  show_title :: string
  latest_episode :: int
  num_seasons :: nat
  episodes :: "episode_doc list"

text \<open>\<open>Array.prototype.indexOf\<close>: the first index of the element, \<open>-1\<close> when absent.\<close>

fun indexOf :: "'a list \<Rightarrow> 'a \<Rightarrow> int" where
  "indexOf [] x = -1"
| "indexOf (y # ys) x =
     (if y = x then 0 else (let i = indexOf ys x in if i < 0 then -1 else i + 1))"

text \<open>
  \<open>xs.splice(index, 1, item)\<close>: a negative index counts from the end (not below 0), an
  index beyond the end is the end; one element from there is removed, if there is one,
  and \<open>item\<close> is put in its place.
\<close>

definition splice1 :: "'a list \<Rightarrow> int \<Rightarrow> 'a \<Rightarrow> 'a list" where
  "splice1 xs index item =
     (let len = int (length xs);
          start = (if index < 0 then max (len + index) 0 else min index len)
      in take (nat start) xs @ [item] @ drop (nat start + 1) xs)"

text \<open>
  \<^verbatim>\<open>
  _updateEpisode(matching, found, show, quality) {
    const index = show.episodes.indexOf(matching)
    const foundTorrents = found.torrents[quality]
    let matchingTorrents = matching.torrents[quality]
    if (foundTorrents && matchingTorrents) {
      let update = false
      if (foundTorrents.seeds > matchingTorrents.seeds ||
          foundTorrents.url === matchingTorrents.url) {
        update = true
      }
      if (update) {
        matchingTorrents = foundTorrents
      }
    } else if (foundTorrents && !matchingTorrents) {
      matchingTorrents = foundTorrents
    }
    show.episodes.splice(index, 1, matching)
    return show
  }
  \<close>
  \<open>matchingTorrents\<close> is a local variable: the assignments to it change neither
  \<open>matching.torrents\<close> nor anything else that is read afterwards. The model computes
  its final value, as the source does, and like the source never uses it.
  \<open>indexOf\<close> looks for the object \<open>matching\<close> itself; the model looks for an equal
  element, which gives the same list, since the element found is replaced by \<open>matching\<close>.
\<close>

definition updateEpisode :: "episode_doc \<Rightarrow> episode_doc \<Rightarrow> show_doc \<Rightarrow> string \<Rightarrow> show_doc" where
  "updateEpisode matching found show quality' =
     (let index = indexOf (episodes show) matching;
          foundTorrents = map_of (ep_torrents found) quality';
          matchingTorrents = map_of (ep_torrents matching) quality';
          matchingTorrents =
            (case (foundTorrents, matchingTorrents) of
               (Some f, Some m) \<Rightarrow>
                 (let update = (seeds f > seeds m \<or> url f = url m)
                  in if update then foundTorrents else matchingTorrents)
             | (Some f, None) \<Rightarrow> foundTorrents
             | (None, _) \<Rightarrow> matchingTorrents)
      in show\<lparr>episodes := splice1 (episodes show) index matching\<rparr>)"

text \<open>
  The body of \<open>found.episodes.map(e => ...)\<close> in \<open>_updateEpisodes\<close>, on the incoming
  show \<open>s\<close>:
  \<^verbatim>\<open>
      const matching = s.episodes.find(
        s => s.season === e.season && s.episode === e.episode)
      if (e.first_aired > s.latest_episode) {
        s.latest_episode = e.first_aired
      }
      if (!matching) {
        return s.episodes.push(e)
      }
      s = this._updateEpisode(matching, e, s, '480p')
      s = this._updateEpisode(matching, e, s, '720p')
      s = this._updateEpisode(matching, e, s, '1080p')
  \<close>
\<close>

definition same_episode :: "episode_doc \<Rightarrow> episode_doc \<Rightarrow> bool" where
  "same_episode e s \<longleftrightarrow> season s = season e \<and> episode s = episode e"

definition merge_found_episode :: "episode_doc \<Rightarrow> show_doc \<Rightarrow> show_doc" where
  "merge_found_episode e s =
     (let matching = List.find (same_episode e) (episodes s);
          s = (if first_aired e > latest_episode s
               then s\<lparr>latest_episode := first_aired e\<rparr> else s)
      in case matching of
           None \<Rightarrow> s\<lparr>episodes := episodes s @ [e]\<rparr>
         | Some matching \<Rightarrow>
             (let s = updateEpisode matching e s ''480p'';
                  s = updateEpisode matching e s ''720p'';
                  s = updateEpisode matching e s ''1080p''
              in s))"

text \<open>
  Modelled from the spec: the store's distinct-values query
  \<open>Model.distinct('episodes.season', {_id: id})\<close>, the distinct season numbers among
  the episodes of the stored document \<open>id\<close> (none when there is no such document).
\<close>

definition distinct_seasons :: "string \<Rightarrow> show_doc store \<Rightarrow> (js_error + int list) \<times> show_doc store" where
  "distinct_seasons k db =
     (case attempt db of
        (True, db') \<Rightarrow> (Inl StoreError, db')
      | (False, db') \<Rightarrow>
          (Inr (case docs db' k of None \<Rightarrow> [] | Some d \<Rightarrow> remdups (map season (episodes d))), db'))"

text \<open>
  \<^verbatim>\<open>
  async _updateNumSeasons(show) {
    const saved = await this.Model.findOneAndUpdate({ _id: show.imdb_id },
      new this.Model(show), { new: true, upsert: true })
    const distinct = await this.Model.distinct('episodes.season',
      { _id: saved.imdb_id }).exec()
    saved.num_seasons = distinct.length
    return this.Model.findOneAndUpdate({ _id: saved.imdb_id },
      new this.Model(saved), { new: true, upsert: true })
  }
  \<close>
\<close>

definition updateNumSeasons :: "show_doc \<Rightarrow> show_doc store \<Rightarrow> (js_error + show_doc) \<times> show_doc store" where
  "updateNumSeasons show db =
     (case findOneAndUpdate (imdb_id show) show db of
        (Inl err, db) \<Rightarrow> (Inl err, db)
      | (Inr saved, db) \<Rightarrow>
          (case distinct_seasons (imdb_id saved) db of
             (Inl err, db) \<Rightarrow> (Inl err, db)
           | (Inr distinct', db) \<Rightarrow>
               (let saved = saved\<lparr>num_seasons := length distinct'\<rparr>
                in findOneAndUpdate (imdb_id saved) saved db)))"

text \<open>
  \<^verbatim>\<open>
  async _updateEpisodes(show) {
    try {
      let s = show
      const found = await this.Model.findOne({ _id: s.imdb_id })
      if (!found) {
        const newShow = await new this.Model(s).save()
        return await this._updateNumSeasons(newShow)
      }
      found.episodes.map(e => { ... })
      return await this._updateNumSeasons(s)
    } catch (err) {
      logger.error(err)
    }
  }
  \<close>
  A rejected store operation is caught and logged, and the function returns
  \<open>undefined\<close>: \<open>None\<close>.
\<close>

definition caught :: "(js_error + 'a) \<times> 'd store \<Rightarrow> 'a option \<times> 'd store" where
  "caught r = (case r of (Inl err, db) \<Rightarrow> (None, db) | (Inr v, db) \<Rightarrow> (Some v, db))"

definition updateEpisodes :: "show_doc \<Rightarrow> show_doc store \<Rightarrow> show_doc option \<times> show_doc store" where
  "updateEpisodes show db =
     (let s = show in
      case findOne (imdb_id s) db of
        (Inl err, db) \<Rightarrow> (None, db)
      | (Inr None, db) \<Rightarrow>
          (case save (imdb_id s) s db of
             (Inl err, db) \<Rightarrow> (None, db)
           | (Inr newShow, db) \<Rightarrow> caught (updateNumSeasons newShow db))
      | (Inr (Some found), db) \<Rightarrow>
          (let s = fold merge_found_episode (episodes found) s
           in caught (updateNumSeasons s db)))"

text \<open>An episode and a show with the fields the merge reads.\<close>

definition mk_episode :: "int \<Rightarrow> int \<Rightarrow> int \<Rightarrow> (string \<times> torrent) list \<Rightarrow> episode_doc" where
  "mk_episode s e aired ts =
     \<lparr>season = s, episode = e, first_aired = aired, ep_title = [], ep_torrents = ts\<rparr>"

definition mk_show :: "string \<Rightarrow> nat \<Rightarrow> episode_doc list \<Rightarrow> show_doc" where
  "mk_show k n es =
     \<lparr>imdb_id = k, show_title = [], latest_episode = 0, num_seasons = n, episodes = es\<rparr>"

text \<open>
  A stored show whose episode S01E01 has a 720p torrent with 50 seeds, in the store under
  its id, and the same show as scraped anew, with a 720p torrent of 10 seeds.
\<close>

definition stored_s01e01 :: episode_doc where
  "stored_s01e01 = mk_episode 1 1 100 [(''720p'', mk_torrent ''720p'' ''en'' ''magnet:old'' 50)]"

definition incoming_s01e01 :: episode_doc where
  "incoming_s01e01 = mk_episode 1 1 100 [(''720p'', mk_torrent ''720p'' ''en'' ''magnet:new'' 10)]"

definition stored_show :: show_doc where
  "stored_show = mk_show ''tt1'' 1 [stored_s01e01]"

definition incoming_show :: show_doc where
  "incoming_show = mk_show ''tt1'' 1 [incoming_s01e01]"

definition show_store :: "show_doc store" where
  "show_store = \<lparr>docs = [''tt1'' \<mapsto> stored_show], faults = []\<rparr>"

text \<open>A show scraped for the first time, with episodes of two seasons, and an empty store.\<close>

definition new_show :: show_doc where
  "new_show = mk_show ''tt2'' 0 [mk_episode 1 1 10 [], mk_episode 1 2 20 [], mk_episode 2 1 30 []]"

definition empty_store :: "show_doc store" where
  "empty_store = \<lparr>docs = Map.empty, faults = []\<rparr>"

section \<open>Movies\<close>

text \<open>
  An image field of a movie is \<open>null\<close>/\<open>undefined\<close> (\<open>NoImage\<close>) or an object with the
  four sizes, each a URL or \<open>null\<close>. The only test the source applies to an image field
  is JavaScript truthiness (\<open>!movie.images.poster\<close>): an object is truthy whatever it
  holds, \<open>null\<close> and \<open>undefined\<close> are not.
\<close>

datatype image =
  NoImage
| Sizes (full: "string option") (high: "string option") (medium: "string option")
    (thumb: "string option")

fun truthy :: "image \<Rightarrow> bool" where
  "truthy NoImage = False"
| "truthy (Sizes f h m t) = True"

text \<open>The object \<open>{full: u, high: u, medium: u, thumb: u}\<close> built from one URL.\<close>

definition sizes_of_url :: "string \<Rightarrow> image" where
  "sizes_of_url u = Sizes (Some u) (Some u) (Some u) (Some u)"

record images =
  banner :: image
  backdrop :: image
  poster :: image
  logo :: image

record rating =
  votes :: int
  watching :: nat

record watched =
  complete :: bool
  progress :: int

text \<open>
  The movie object of \<open>getTraktInfo\<close>, with the fields \<open>_updateMovieInDb\<close> copies from a
  stored document (\<open>downloaded\<close>, \<open>downloading\<close>, \<open>downloadedOn\<close> are absent from a
  fresh object: \<open>None\<close>). \<open>doc_id\<close> is the source's \<open>_id\<close> and \<open>content_type\<close> its
  \<open>type\<close>. The fields that only reformat a number or a date of the summary
  (\<open>released\<close>, \<open>runtime\<close>, \<open>rating.stars\<close>, \<open>rating.percentage\<close>) take no part in any
  decision and are left out. \<open>torrents\<close> may be absent on a stored document.
\<close>

record movie =
  doc_id :: string
  imdbId :: string
  tmdbId :: int
  slug :: string
  title :: string
  certification :: string
  synopsis :: string
  rating :: rating
  images :: images
  genres :: "string list"
  trailer :: string
  createdAt :: int
  updatedAt :: int
  content_type :: string
  torrents :: "torrent list option"
  watched :: watched
  bookmarked :: bool
  bookmarkedOn :: "int option"
  downloaded :: "bool option"
  downloading :: "bool option"
  downloadedOn :: "int option"

text \<open>
  The members of the base class \<open>AbstractHelper\<close> that \<open>MovieHelper\<close> uses; the base class
  is not among the sources, so the helper functions below take them as a parameter:
  the placeholder \<open>AbstractHelper.DefaultImageSizes\<close>, \<open>_formatImdbImage\<close> (from a TMDB
  file path to an image object), \<open>checkImages\<close> (whether the promise it returns is
  resolved with the item; otherwise it is rejected with the item, which is how the
  \<open>catch\<close> handlers recognise it: "If we have tmdb_id then the check images failed"),
  and \<open>_formatTorrents\<close> (called with the incoming and the stored torrents).
\<close>

record helper =
  DefaultImageSizes :: image
  formatImdbImage :: "string \<Rightarrow> image"
  checkImages :: "movie \<Rightarrow> bool"
  formatTorrents :: "torrent list option \<Rightarrow> torrent list option \<Rightarrow> torrent list option"

text \<open>
  \<^verbatim>\<open>
  async _updateMovieInDb(movie) {
    try {
      const m = movie
      const found = await this.Model.findOne({ _id: m._id })
      if (found) {
        if (found.torrents) {
          m.torrents = this._formatTorrents(m.torrents, found.torrents)
        }
        // Keep old attributes that could change
        m.createdAt = found.createdAt
        m.bookmarked = found.bookmarked
        m.bookmarkedOn = found.bookmarkedOn
        m.watched = found.watched
        m.downloaded = found.downloaded
        m.downloading = found.downloading
        m.downloadedOn = found.downloadedOn
        return await this.Model.findOneAndUpdate({ _id: m._id }, m,
          { upsert: true, new: true })
      }
      return await new this.Model(m).save()
    } catch (err) {
      logger.error(`_updateMovieInDb: ${err.message || err}`)
    }
  }
  \<close>
\<close>

definition keep_old_attributes :: "movie \<Rightarrow> movie \<Rightarrow> movie" where
  "keep_old_attributes found m =
     m\<lparr>createdAt := createdAt found,
       bookmarked := bookmarked found,
       bookmarkedOn := bookmarkedOn found,
       watched := watched found,
       downloaded := downloaded found,
       downloading := downloading found,
       downloadedOn := downloadedOn found\<rparr>"

definition updateMovieInDb :: "helper \<Rightarrow> movie \<Rightarrow> movie store \<Rightarrow> movie option \<times> movie store" where
  "updateMovieInDb H movie db =
     (let m = movie in
      case findOne (doc_id m) db of
        (Inl err, db) \<Rightarrow> (None, db)
      | (Inr (Some found), db) \<Rightarrow>
          (let m = (case torrents found of
                      Some ts \<Rightarrow> m\<lparr>torrents := formatTorrents H (torrents m) (torrents found)\<rparr>
                    | None \<Rightarrow> m);
               m = keep_old_attributes found m
           in caught (findOneAndUpdate (doc_id m) m db))
      | (Inr None, db) \<Rightarrow> caught (save (doc_id m) m db))"

section \<open>The image cascade of a movie\<close>

text \<open>
  What the image providers answer. A provider call is a promise: rejected with an error
  (\<open>Inl\<close>) or resolved with the response (\<open>Inr\<close>). Of a Fanart response each list may
  be missing (\<open>None\<close>).
\<close>

record tmdb_image =
  iso_639_1 :: "string option"
  file_path :: string
  width :: nat

record tmdb_images =
  posters :: "tmdb_image list"
  backdrops :: "tmdb_image list"

record omdb_movie =
  Poster :: "string option"

record fanart_image =
  fanart_url :: string

record fanart_movie =
  moviebanner :: "fanart_image list option"
  moviebackground :: "fanart_image list option"
  hdmovieclearart :: "fanart_image list option"
  movieposter :: "fanart_image list option"
  movielogo :: "fanart_image list option"
  hdmovielogo :: "fanart_image list option"

text \<open>\<open>xs.shift()\<close>, read for its value: the first element, \<open>undefined\<close> on an empty array.\<close>

definition shift :: "'a list \<Rightarrow> 'a option" where
  "shift xs = (case xs of [] \<Rightarrow> None | x # _ \<Rightarrow> Some x)"

definition en_or_untagged :: "tmdb_image \<Rightarrow> bool" where
  "en_or_untagged p \<longleftrightarrow> iso_639_1 p = Some ''en'' \<or> iso_639_1 p = None"

text \<open>
  What reaches the \<open>catch\<close> handler of a step: the item \<open>checkImages\<close> rejected, or an
  error of the provider call.
\<close>

datatype thrown = Item movie | Failure js_error

text \<open>
  A step of the cascade returns a promise of a movie: \<open>Inr\<close> when it is resolved, \<open>Inl\<close>
  when it is rejected; the handlers reject with a movie in every case.
  \<^verbatim>\<open>
    }).catch(err => {
      // If we have tmdb_id then the check images failed
      if (err.tmdbId) {
        return Promise.reject(err)
      } else if (err.statusCode && err.statusCode === 404) {
        logger.warn(...)
      } else {
        logger.error(...)
      }
      // Always return the movie
      return Promise.reject(movie)
    })
  \<close>
\<close>

definition catch_tmdbId :: "movie \<Rightarrow> thrown \<Rightarrow> movie + movie" where
  "catch_tmdbId movie err =
     (case err of
        Item item \<Rightarrow> if tmdbId item \<noteq> 0 then Inl item else Inl movie
      | Failure e \<Rightarrow> Inl movie)"

definition catch_imdbId :: "movie \<Rightarrow> thrown \<Rightarrow> movie + movie" where
  "catch_imdbId movie err =
     (case err of
        Item item \<Rightarrow> if imdbId item \<noteq> [] then Inl item else Inl movie
      | Failure e \<Rightarrow> Inl movie)"

text \<open>
  \<^verbatim>\<open>
  _addTmdbImages(movie) {
    return tmdb.movie.images({ movie_id: movie.tmdbId }).then(i => {
      const tmdbPoster = i.posters.filter(
        poster => poster.iso_639_1 === 'en' || poster.iso_639_1 === null).shift()
      const tmdbBackdrop = i.backdrops.filter(
        backdrop => backdrop.iso_639_1 === 'en' || backdrop.iso_639_1 === null).shift()
      return this.checkImages({
        ...movie,
        images: {
          banner: AbstractHelper.DefaultImageSizes,
          backdrop: tmdbBackdrop
            ? this._formatImdbImage(tmdbBackdrop.file_path)
            : AbstractHelper.DefaultImageSizes,
          poster: tmdbPoster
            ? this._formatImdbImage(tmdbPoster.file_path)
            : AbstractHelper.DefaultImageSizes,
          logo: AbstractHelper.DefaultImageSizes,
        },
      })
    }).catch(err => { ... err.tmdbId ... })
  }
  \<close>
\<close>

definition addTmdbImages :: "helper \<Rightarrow> movie \<Rightarrow> js_error + tmdb_images \<Rightarrow> movie + movie" where
  "addTmdbImages H movie response =
     (case response of
        Inl e \<Rightarrow> catch_tmdbId movie (Failure e)
      | Inr i \<Rightarrow>
          (let tmdbPoster = shift (filter en_or_untagged (posters i));
               tmdbBackdrop = shift (filter en_or_untagged (backdrops i));
               item = movie\<lparr>images :=
                 \<lparr>banner = DefaultImageSizes H,
                  backdrop = (case tmdbBackdrop of
                                Some b \<Rightarrow> formatImdbImage H (file_path b)
                              | None \<Rightarrow> DefaultImageSizes H),
                  poster = (case tmdbPoster of
                              Some p \<Rightarrow> formatImdbImage H (file_path p)
                            | None \<Rightarrow> DefaultImageSizes H),
                  logo = DefaultImageSizes H\<rparr>\<rparr>
           in if checkImages H item then Inr item else catch_tmdbId movie (Item item)))"

text \<open>
  \<^verbatim>\<open>
  _addOmdbImages(movie) {
    // Check if we already have the images omdb can retrieve if so throw catch
    if (movie.images.poster) {
      return Promise.reject(movie)
    }
    return omdb.byId({ imdb: movie.imdbId, type: 'movie' }).then(i => {
      return this.checkImages({
        ...movie,
        images: {
          banner: movie.images.banner,
          backdrop: movie.images.backdrop,
          poster: !movie.images.poster && i.Poster
            ? { full: i.Poster, high: i.Poster, medium: i.Poster, thumb: i.Poster }
            : movie.images.poster,
          logo: movie.images.logo,
        },
      })
    }).catch(err => { ... err.imdbId ... })
  }
  \<close>
  \<open>i.Poster\<close> is usable when it is a non-empty string.
\<close>

definition addOmdbImages :: "helper \<Rightarrow> movie \<Rightarrow> js_error + omdb_movie \<Rightarrow> movie + movie" where
  "addOmdbImages H movie response =
     (if truthy (poster (images movie)) then Inl movie
      else case response of
        Inl e \<Rightarrow> catch_imdbId movie (Failure e)
      | Inr i \<Rightarrow>
          (let item = movie\<lparr>images :=
                 \<lparr>banner = banner (images movie),
                  backdrop = backdrop (images movie),
                  poster = (case Poster i of
                              Some p \<Rightarrow>
                                if \<not> truthy (poster (images movie)) \<and> p \<noteq> []
                                then sizes_of_url p else poster (images movie)
                            | None \<Rightarrow> poster (images movie)),
                  logo = logo (images movie)\<rparr>\<rparr>
           in if checkImages H item then Inr item else catch_imdbId movie (Item item)))"

text \<open>
  \<^verbatim>\<open>
  _addFanartImages(movie) {
    return fanart.getMovieImages(movie.tmdbId).then(i => {
      const banner = !movie.images.banner && i.moviebanner
        ? i.moviebanner.shift() : null
      const backdrop = !movie.images.backdrop && i.moviebackground
        ? i.moviebackground.shift()
        : !movie.images.backdrop && i.hdmovieclearart
          ? i.hdmovieclearart.shift() : null
      const poster = !movie.images.poster && i.movieposter
        ? i.movieposter.shift() : null
      const logo = !movie.images.logo && i.movielogo
        ? i.movielogo.shift()
        : !movie.images.logo && i.hdmovielogo
          ? i.hdmovielogo.shift() : null
      return this.checkImages({
        ...movie,
        images: {
          banner: banner ? { full: banner.url, ... } : movie.images.banner,
          backdrop: backdrop ? { full: backdrop.url, ... } : movie.images.backdrop,
          poster: poster ? { full: poster.url, ... } : movie.images.poster,
          logo: logo ? { full: logo.url, ... } : movie.images.logo,
        },
      })
    }).catch(err => { ... err.tmdbId ... })
  }
  \<close>
  A list that is present is truthy even when empty; \<open>shift\<close> of an empty list is
  \<open>undefined\<close>, and then the second list is not consulted.
\<close>

definition pick1 :: "image \<Rightarrow> fanart_image list option \<Rightarrow> fanart_image option" where
  "pick1 current first =
     (case first of
        Some xs \<Rightarrow> if \<not> truthy current then shift xs else None
      | None \<Rightarrow> None)"

definition pick2 :: "image \<Rightarrow> fanart_image list option \<Rightarrow> fanart_image list option \<Rightarrow> fanart_image option" where
  "pick2 current first second =
     (case first of
        Some xs \<Rightarrow> if \<not> truthy current then shift xs else pick1 current second
      | None \<Rightarrow> pick1 current second)"

definition chosen :: "fanart_image option \<Rightarrow> image \<Rightarrow> image" where
  "chosen picked current =
     (case picked of Some x \<Rightarrow> sizes_of_url (fanart_url x) | None \<Rightarrow> current)"

definition addFanartImages :: "helper \<Rightarrow> movie \<Rightarrow> js_error + fanart_movie \<Rightarrow> movie + movie" where
  "addFanartImages H movie response =
     (case response of
        Inl e \<Rightarrow> catch_tmdbId movie (Failure e)
      | Inr i \<Rightarrow>
          (let banner' = pick1 (banner (images movie)) (moviebanner i);
               backdrop' = pick2 (backdrop (images movie)) (moviebackground i) (hdmovieclearart i);
               poster' = pick1 (poster (images movie)) (movieposter i);
               logo' = pick2 (logo (images movie)) (movielogo i) (hdmovielogo i);
               item = movie\<lparr>images :=
                 \<lparr>banner = chosen banner' (banner (images movie)),
                  backdrop = chosen backdrop' (backdrop (images movie)),
                  poster = chosen poster' (poster (images movie)),
                  logo = chosen logo' (logo (images movie))\<rparr>\<rparr>
           in if checkImages H item then Inr item else catch_tmdbId movie (Item item)))"

text \<open>
  \<^verbatim>\<open>
  addImages(movie) {
    return this._addTmdbImages(movie)
      .catch(movie => this._addOmdbImages(movie))
      .catch(movie => this._addFanartImages(movie))
      .catch(movie => movie)
  }
  \<close>
  A resolved step ends the cascade; a rejected one hands the movie it was rejected with to
  the next step. The promise of \<open>addImages\<close> is always resolved.
\<close>

definition addImages ::
  "helper \<Rightarrow> movie \<Rightarrow> js_error + tmdb_images \<Rightarrow> js_error + omdb_movie \<Rightarrow>
   js_error + fanart_movie \<Rightarrow> movie" where
  "addImages H movie tmdb_response omdb_response fanart_response =
     (case addTmdbImages H movie tmdb_response of
        Inr done \<Rightarrow> done
      | Inl movie \<Rightarrow>
          (case addOmdbImages H movie omdb_response of
             Inr done \<Rightarrow> done
           | Inl movie \<Rightarrow>
               (case addFanartImages H movie fanart_response of
                  Inr done \<Rightarrow> done
                | Inl movie \<Rightarrow> movie)))"

text \<open>The movie a step leaves, whether its promise is resolved or rejected.\<close>

definition outcome :: "movie + movie \<Rightarrow> movie" where
  "outcome r = (case r of Inl m \<Rightarrow> m | Inr m \<Rightarrow> m)"

text \<open>
  The relation between the images before and after a provider that respects precedence:
  a field that differs afterwards was unresolved before (falsy, which is the source's
  test) and is resolved afterwards.
\<close>

definition image_fields :: "(images \<Rightarrow> image) list" where
  "image_fields = [banner, backdrop, poster, logo]"

definition only_fills :: "movie \<Rightarrow> movie \<Rightarrow> bool" where
  "only_fills before after \<longleftrightarrow>
     (\<forall>f \<in> set image_fields.
        f (images after) \<noteq> f (images before) \<longrightarrow>
          \<not> truthy (f (images before)) \<and> truthy (f (images after)))"

section \<open>Fetching the metadata of a title: \<open>getTraktInfo\<close>\<close>

text \<open>
  The summary of a title as the metadata provider returns it. Each cross-reference id may
  be missing; an id is usable when it is truthy: a non-empty string, a number other than
  0. \<open>s_airs\<close> (day and time) is read for shows only.
\<close>

record trakt_ids =
  ids_slug :: string
  ids_imdb :: "string option"
  ids_tmdb :: "int option"
  ids_tvdb :: "int option"

record trakt_summary =
  s_ids :: trakt_ids
  s_title :: string
  s_certification :: string
  s_overview :: string
  s_votes :: int
  s_genres :: "string list option"
  s_trailer :: string
  s_airs :: "(string \<times> string) option"

text \<open>
  What \<open>MovieHelper.getTraktInfo\<close> rejects with: \<open>Error(message)\<close>, the message being
  "Could not find any data with slug" when the caught error has \<open>statusCode\<close> 404, and
  the caught error's text otherwise.
\<close>

datatype trakt_rejection = NoDataWithSlug string | TraktInfoFailure js_error

definition rejection :: "string \<Rightarrow> js_error \<Rightarrow> trakt_rejection" where
  "rejection traktSlug err =
     (if err = HttpError 404 then NoDataWithSlug traktSlug else TraktInfoFailure err)"

text \<open>\<open>traktWatchers ? traktWatchers.length : 0\<close>: an array is truthy, also when empty.\<close>

definition watching_count :: "string list option \<Rightarrow> nat" where
  "watching_count traktWatchers =
     (case traktWatchers of Some ws \<Rightarrow> length ws | None \<Rightarrow> 0)"

definition genres_or_unknown :: "string list option \<Rightarrow> string list" where
  "genres_or_unknown gs = (case gs of Some g \<Rightarrow> g | None \<Rightarrow> [''unknown''])"

text \<open>
  \<^verbatim>\<open>
  async getTraktInfo(traktSlug) {
    try {
      const traktMovie = await trakt.movies.summary({ id: traktSlug, extended: 'full' })
      const traktWatchers = await trakt.movies.watching({ id: traktSlug })
      if (traktMovie && traktMovie.ids.imdb && traktMovie.ids.tmdb) {
        return this.addImages({
          _id: traktMovie.ids.imdb,
          imdbId: traktMovie.ids.imdb,
          tmdbId: traktMovie.ids.tmdb,
          ...
          rating: { ..., votes: traktMovie.votes,
            watching: await traktWatchers ? traktWatchers.length : 0, ... },
          images: { banner: AbstractHelper.DefaultImageSizes,
            backdrop: AbstractHelper.DefaultImageSizes,
            poster: AbstractHelper.DefaultImageSizes },
          genres: traktMovie.genres ? traktMovie.genres : ['unknown'],
          ...
          createdAt: Number(new Date()), updatedAt: Number(new Date()),
          type: 'movie', torrents: [],
          watched: { complete: false, progress: 0 },
          bookmarked: false, bookmarkedOn: null,
        })
      }
    } catch (err) {
      let message = `getTraktInfo: ${err.path || err}`
      if (err.statusCode === 404) {
        message = `getTraktInfo: Could not find any data with slug: '${traktSlug}'`
      }
      return Promise.reject(Error(message))
    }
  }
  \<close>
  The two provider calls are awaited inside the \<open>try\<close>, one after the other; the
  responses of all providers are parameters of the model, \<open>now\<close> is the clock. The
  result is the promise: \<open>Inl\<close> rejected, \<open>Inr None\<close> resolved with \<open>undefined\<close> (the
  \<open>if\<close> has no \<open>else\<close>), \<open>Inr (Some m)\<close> resolved with a movie. The object has no
  \<open>images.logo\<close>.
\<close>

definition movie_of_summary :: "helper \<Rightarrow> int \<Rightarrow> trakt_summary \<Rightarrow> string \<Rightarrow> int \<Rightarrow> string list option \<Rightarrow> movie" where
  "movie_of_summary H now traktMovie imdb tmdb traktWatchers =
     \<lparr>doc_id = imdb,
      imdbId = imdb,
      tmdbId = tmdb,
      slug = ids_slug (s_ids traktMovie),
      title = s_title traktMovie,
      certification = s_certification traktMovie,
      synopsis = s_overview traktMovie,
      rating = \<lparr>votes = s_votes traktMovie, watching = watching_count traktWatchers\<rparr>,
      images = \<lparr>banner = DefaultImageSizes H, backdrop = DefaultImageSizes H,
                poster = DefaultImageSizes H, logo = NoImage\<rparr>,
      genres = genres_or_unknown (s_genres traktMovie),
      trailer = s_trailer traktMovie,
      createdAt = now,
      updatedAt = now,
      content_type = ''movie'',
      torrents = Some [],
      watched = \<lparr>complete = False, progress = 0\<rparr>,
      bookmarked = False,
      bookmarkedOn = None,
      downloaded = None,
      downloading = None,
      downloadedOn = None\<rparr>"

definition MovieHelper_getTraktInfo ::
  "helper \<Rightarrow> int \<Rightarrow> string \<Rightarrow> js_error + trakt_summary option \<Rightarrow>
   js_error + string list option \<Rightarrow> js_error + tmdb_images \<Rightarrow> js_error + omdb_movie \<Rightarrow>
   js_error + fanart_movie \<Rightarrow> trakt_rejection + movie option" where
  "MovieHelper_getTraktInfo H now traktSlug summary watching' tmdb_response omdb_response
     fanart_response =
     (case summary of
        Inl err \<Rightarrow> Inl (rejection traktSlug err)
      | Inr traktMovie \<Rightarrow>
          (case watching' of
             Inl err \<Rightarrow> Inl (rejection traktSlug err)
           | Inr traktWatchers \<Rightarrow>
               (case traktMovie of
                  None \<Rightarrow> Inr None
                | Some tm \<Rightarrow>
                    (case (ids_imdb (s_ids tm), ids_tmdb (s_ids tm)) of
                       (Some imdb, Some tmdb) \<Rightarrow>
                         if imdb \<noteq> [] \<and> tmdb \<noteq> 0
                         then Inr (Some (addImages H
                                (movie_of_summary H now tm imdb tmdb traktWatchers)
                                tmdb_response omdb_response fanart_response))
                         else Inr None
                     | _ \<Rightarrow> Inr None))))"

section \<open>Show images and \<open>ShowHelper.getTraktInfo\<close>\<close>

text \<open>A number in a template literal: its decimal digits.\<close>

definition digit :: "nat \<Rightarrow> char" where
  "digit d = char_of (48 + d)"

function decimal :: "nat \<Rightarrow> string" where
  "decimal n = (if n < 10 then [digit n] else decimal (n div 10) @ [digit (n mod 10)])"
  by pat_completeness auto
termination
  by (relation "measure id") auto

declare decimal.simps [simp del]

text \<open>
  \<^verbatim>\<open>
  _getTmdbImages(tmdbId) {
    return tmdb.tv.images({ tv_id: tmdbId }).then(i => {
      const baseUrl = 'http://image.tmdb.org/t/p/w'
      const poster = i.posters.filter(
        poster => poster.iso_639_1 === 'en' || poster.iso_639_1 === null)[0]
      const posterPath = poster.file_path
      const posterWidth = poster.width
      const backdrop = i.backdrops.filter(
        backdrop => backdrop.iso_639_1 === 'en' || backdrop.iso_639_1 === null)[0]
      const backdropPath = backdrop.file_path
      const backdropWidth = backdrop.width
      return {
        backdrop: backdrop ? `${baseUrl}${backdropWidth}${backdropPath}` : null,
        poster: poster ? `${baseUrl}${posterWidth}${posterPath}` : null
      }
    })
  }
  \<close>
  Element 0 of an empty array is \<open>undefined\<close>, and reading \<open>file_path\<close> of it throws a
  \<open>TypeError\<close>, which rejects the promise; there is no \<open>catch\<close>.
\<close>

record tmdb_show_images =
  tmdb_backdrop :: "string option"
  tmdb_poster :: "string option"

definition getTmdbImages :: "js_error + tmdb_images \<Rightarrow> js_error + tmdb_show_images" where
  "getTmdbImages response =
     (case response of
        Inl e \<Rightarrow> Inl e
      | Inr i \<Rightarrow>
          (let baseUrl = ''http://image.tmdb.org/t/p/w'' in
           case filter en_or_untagged (posters i) of
             [] \<Rightarrow> Inl TypeError
           | poster' # _ \<Rightarrow>
               (let posterPath = file_path poster'; posterWidth = width poster' in
                case filter en_or_untagged (backdrops i) of
                  [] \<Rightarrow> Inl TypeError
                | backdrop' # _ \<Rightarrow>
                    (let backdropPath = file_path backdrop'; backdropWidth = width backdrop' in
                     Inr \<lparr>tmdb_backdrop = Some (baseUrl @ decimal backdropWidth @ backdropPath),
                          tmdb_poster = Some (baseUrl @ decimal posterWidth @ posterPath)\<rparr>))))"

text \<open>
  \<^verbatim>\<open>
  _getFanartImages(tvdbId) {
    return fanart.getShowImages(tvdbId).then(i => {
      return {
        backdrop: i.showbackground[0].url,
        poster: i.tvposter[0].url,
        logo: i.hdtvlogo[0].url,
        thumb: i.tvthumb[0].url
      }
    })
  }
  \<close>
  A list that is missing or empty makes the read of \<open>url\<close> throw a \<open>TypeError\<close>.
\<close>

record fanart_show =
  showbackground :: "fanart_image list option"
  tvposter :: "fanart_image list option"
  hdtvlogo :: "fanart_image list option"
  tvthumb :: "fanart_image list option"

record show_images =
  show_backdrop :: string
  show_poster :: string
  show_logo :: string
  show_thumb :: string

definition first_url :: "fanart_image list option \<Rightarrow> js_error + string" where
  "first_url xs =
     (case xs of
        None \<Rightarrow> Inl TypeError
      | Some [] \<Rightarrow> Inl TypeError
      | Some (x # _) \<Rightarrow> Inr (fanart_url x))"

definition getFanartImages :: "js_error + fanart_show \<Rightarrow> js_error + show_images" where
  "getFanartImages response =
     (case response of
        Inl e \<Rightarrow> Inl e
      | Inr i \<Rightarrow>
          (case first_url (showbackground i) of
             Inl e \<Rightarrow> Inl e
           | Inr b \<Rightarrow>
               (case first_url (tvposter i) of
                  Inl e \<Rightarrow> Inl e
                | Inr p \<Rightarrow>
                    (case first_url (hdtvlogo i) of
                       Inl e \<Rightarrow> Inl e
                     | Inr l \<Rightarrow>
                         (case first_url (tvthumb i) of
                            Inl e \<Rightarrow> Inl e
                          | Inr t \<Rightarrow>
                              Inr \<lparr>show_backdrop = b, show_poster = p, show_logo = l,
                                   show_thumb = t\<rparr>)))))"

text \<open>
  \<^verbatim>\<open>
  async getImages({ tmdbId, tvdbId }) {
    const tmdbImages = await this._getTmdbImages(tmdbId)
    const images = await this._getFanartImages(tvdbId)
    if (tmdbImages.backdrop !== null) {
      images.backdrop = tmdbImages.backdrop // TMDB ones are better
    }
    if (tmdbImages.poster !== null) {
      images.poster = tmdbImages.poster // TMDB ones are better
    }
    return images
  }
  \<close>
  Neither \<open>await\<close> is inside a \<open>try\<close>: a rejection of either is the rejection of
  \<open>getImages\<close>, and Fanart is not asked once TMDB has failed.
\<close>

definition getImages :: "js_error + tmdb_images \<Rightarrow> js_error + fanart_show \<Rightarrow> js_error + show_images" where
  "getImages tmdb_response fanart_response =
     (case getTmdbImages tmdb_response of
        Inl e \<Rightarrow> Inl e
      | Inr tmdbImages \<Rightarrow>
          (case getFanartImages fanart_response of
             Inl e \<Rightarrow> Inl e
           | Inr images' \<Rightarrow>
               (let images' = (case tmdb_backdrop tmdbImages of
                                 Some b \<Rightarrow> images'\<lparr>show_backdrop := b\<rparr> | None \<Rightarrow> images');
                    images' = (case tmdb_poster tmdbImages of
                                 Some p \<Rightarrow> images'\<lparr>show_poster := p\<rparr> | None \<Rightarrow> images')
                in Inr images')))"

text \<open>
  \<^verbatim>\<open>
  async getTraktInfo(slug) {
    try {
      const traktShow = await trakt.shows.summary({ slug, extended: 'full' })
      const traktWatchers = await trakt.shows.watching({ id: slug })
      const { imdb, tmdb, tvdb } = traktShow.ids
      if (traktShow && imdb && tmdb && tvdb) {
        return Promise.resolve({
          imdb_id: imdb, tmdb_id: tmdb, title: traktShow.title, ...
          rating: { votes: traktShow.votes,
            watching: traktWatchers ? traktWatchers.length : 0, ... },
          images: await this.getImages({ tmdbId: tmdb, tvdbId: tvdb }),
          genres: traktShow.genres ? traktShow.genres : ['unknown'],
          tvdb_id: tvdb,
          air_info: { ..., day: traktShow.airs.day, time: traktShow.airs.time, ... },
          last_updated: Number(new Date()),
          seasons: []
        })
      }
    } catch (err) {
      logger.error(`Trakt: Could not find any data on: ${err.path || err}`)
      return Promise.reject(err)
    }
  }
  \<close>
  \<open>traktShow.ids\<close> is read before \<open>traktShow\<close> is tested, so a summary that is
  \<open>null\<close> throws a \<open>TypeError\<close>; the handler rejects with the error it caught. A
  summary without one of the three ids falls through the \<open>if\<close>: the promise is
  resolved with \<open>undefined\<close>.
\<close>

record show_info =
  info_imdb_id :: string
  info_tmdb_id :: int
  info_tvdb_id :: int
  info_title :: string
  info_slug :: string
  info_synopsis :: string
  info_certification :: string
  info_rating :: rating
  info_images :: show_images
  info_genres :: "string list"
  air_day :: string
  air_time :: string
  last_updated :: int

definition ShowHelper_getTraktInfo ::
  "int \<Rightarrow> js_error + trakt_summary option \<Rightarrow> js_error + string list option \<Rightarrow>
   js_error + tmdb_images \<Rightarrow> js_error + fanart_show \<Rightarrow> js_error + show_info option" where
  "ShowHelper_getTraktInfo now summary watching' tmdb_response fanart_response =
     (case summary of
        Inl err \<Rightarrow> Inl err
      | Inr traktShow \<Rightarrow>
          (case watching' of
             Inl err \<Rightarrow> Inl err
           | Inr traktWatchers \<Rightarrow>
               (case traktShow of
                  None \<Rightarrow> Inl TypeError
                | Some ts \<Rightarrow>
                    (case (ids_imdb (s_ids ts), ids_tmdb (s_ids ts), ids_tvdb (s_ids ts)) of
                       (Some imdb, Some tmdb, Some tvdb) \<Rightarrow>
                         if imdb \<noteq> [] \<and> tmdb \<noteq> 0 \<and> tvdb \<noteq> 0
                         then (case getImages tmdb_response fanart_response of
                                 Inl err \<Rightarrow> Inl err
                               | Inr images' \<Rightarrow>
                                   (case s_airs ts of
                                      None \<Rightarrow> Inl TypeError
                                    | Some (day, time) \<Rightarrow>
                                        Inr (Some
                                          \<lparr>info_imdb_id = imdb,
                                           info_tmdb_id = tmdb,
                                           info_tvdb_id = tvdb,
                                           info_title = s_title ts,
                                           info_slug = ids_slug (s_ids ts),
                                           info_synopsis = s_overview ts,
                                           info_certification = s_certification ts,
                                           info_rating = \<lparr>votes = s_votes ts,
                                             watching = watching_count traktWatchers\<rparr>,
                                           info_images = images',
                                           info_genres = genres_or_unknown (s_genres ts),
                                           air_day = day,
                                           air_time = time,
                                           last_updated = now\<rparr>)))
                         else Inr None
                     | _ \<Rightarrow> Inr None))))"

section \<open>Usable ids\<close>

text \<open>JavaScript truthiness of an id: a non-empty string, a number other than 0.\<close>

definition usable_string :: "string option \<Rightarrow> bool" where
  "usable_string x = (case x of Some s \<Rightarrow> s \<noteq> [] | None \<Rightarrow> False)"

definition usable_number :: "int option \<Rightarrow> bool" where
  "usable_number x = (case x of Some n \<Rightarrow> n \<noteq> 0 | None \<Rightarrow> False)"

section \<open>Values for the examples\<close>

text \<open>
  Modelled from the spec: \<open>_formatTorrents\<close> of \<open>AbstractHelper\<close>, which is not among
  the sources, as the torrent merge of the spec: "start from \<open>incoming\<close>. For each entry
  \<open>e\<close> in \<open>stored\<close>: if no entry in \<open>incoming\<close> shares (quality, language) with
  \<open>e\<close>, add \<open>e\<close> to the result; if a match \<open>m\<close> exists and \<open>e.seeds > m.seeds\<close>,
  replace \<open>m\<close> with \<open>e\<close> in the result; ties and \<open>e.seeds <= m.seeds\<close> keep the
  incoming entry." An argument that is absent counts as no torrents.
\<close>

definition spec_merge_entry :: "torrent list \<Rightarrow> torrent \<Rightarrow> torrent list \<Rightarrow> torrent list" where
  "spec_merge_entry incoming e result =
     (case List.find (same_key e) incoming of
        None \<Rightarrow> result @ [e]
      | Some m \<Rightarrow> if seeds e > seeds m then map (\<lambda>t. if t = m then e else t) result else result)"

definition spec_merge :: "torrent list \<Rightarrow> torrent list \<Rightarrow> torrent list" where
  "spec_merge incoming stored = fold (spec_merge_entry incoming) stored incoming"

definition spec_formatTorrents :: "torrent list option \<Rightarrow> torrent list option \<Rightarrow> torrent list option" where
  "spec_formatTorrents incoming stored =
     Some (spec_merge (case incoming of Some ts \<Rightarrow> ts | None \<Rightarrow> [])
                      (case stored of Some ts \<Rightarrow> ts | None \<Rightarrow> []))"

text \<open>
  Modelled from the spec: the other members of \<open>AbstractHelper\<close> for the examples. The
  placeholder sentinel is \<open>null\<close>, the value the source's test \<open>!movie.images.x\<close>
  takes for "still placeholder"; \<open>checkImages\<close> lets the cascade go on while an image
  field is a placeholder ("Each step runs only if any image field is still
  placeholder"); an image of the primary provider is a resolved image set of its file
  path.
\<close>

definition spec_checkImages :: "movie \<Rightarrow> bool" where
  "spec_checkImages item \<longleftrightarrow>
     truthy (banner (images item)) \<and> truthy (backdrop (images item)) \<and>
     truthy (poster (images item)) \<and> truthy (logo (images item))"

definition spec_helper :: helper where
  "spec_helper =
     \<lparr>DefaultImageSizes = NoImage,
      formatImdbImage = (\<lambda>path. sizes_of_url (''https://image.tmdb.org/t/p/original'' @ path)),
      checkImages = spec_checkImages,
      formatTorrents = spec_formatTorrents\<rparr>"

definition summary_ok :: trakt_summary where
  "summary_ok =
     \<lparr>s_ids = \<lparr>ids_slug = ''the-matrix'', ids_imdb = Some ''tt0133093'',
               ids_tmdb = Some 603, ids_tvdb = Some 77\<rparr>,
      s_title = ''The Matrix'', s_certification = ''R'', s_overview = [],
      s_votes = 12, s_genres = None, s_trailer = [], s_airs = Some (''Monday'', ''20:00'')\<rparr>"

definition summary_without_tvdb :: trakt_summary where
  "summary_without_tvdb = summary_ok\<lparr>s_ids := (s_ids summary_ok)\<lparr>ids_tvdb := None\<rparr>\<rparr>"

definition summary_without_imdb :: trakt_summary where
  "summary_without_imdb = summary_ok\<lparr>s_ids := (s_ids summary_ok)\<lparr>ids_imdb := None\<rparr>\<rparr>"

text \<open>
  The primary provider returns a poster only; the secondary artwork provider returns a
  poster and a backdrop; the fallback by primary id is not reached with a poster present.
\<close>

definition tmdb_poster_only :: tmdb_images where
  "tmdb_poster_only =
     \<lparr>posters = [\<lparr>iso_639_1 = Some ''en'', file_path = ''/p.jpg'', width = 500\<rparr>],
      backdrops = []\<rparr>"

definition omdb_with_poster :: omdb_movie where
  "omdb_with_poster = \<lparr>Poster = Some ''http://omdb/poster.jpg''\<rparr>"

definition fanart_poster_backdrop :: fanart_movie where
  "fanart_poster_backdrop =
     \<lparr>moviebanner = None,
      moviebackground = Some [\<lparr>fanart_url = ''http://fanart/bg.jpg''\<rparr>],
      hdmovieclearart = None,
      movieposter = Some [\<lparr>fanart_url = ''http://fanart/poster.jpg''\<rparr>],
      movielogo = None,
      hdmovielogo = None\<rparr>"

definition draft_movie :: movie where
  "draft_movie = movie_of_summary spec_helper 1000 summary_ok ''tt0133093'' 603 None"

text \<open>
  A stored movie with user state, and the freshly scraped record of the same title.
\<close>

definition stored_movie :: movie where
  "stored_movie =
     draft_movie\<lparr>title := ''The Matrix (old)'', createdAt := 5, updatedAt := 6,
       torrents := Some [mk_torrent ''720p'' ''en'' ''magnet:old'' 50],
       watched := \<lparr>complete = True, progress = 100\<rparr>,
       bookmarked := True, bookmarkedOn := Some 7,
       downloaded := Some True, downloading := Some False, downloadedOn := Some 8\<rparr>"

definition incoming_movie :: movie where
  "incoming_movie =
     draft_movie\<lparr>torrents := Some [mk_torrent ''1080p'' ''en'' ''magnet:new'' 10]\<rparr>"

definition movie_store :: "movie store" where
  "movie_store = \<lparr>docs = [''tt0133093'' \<mapsto> stored_movie], faults = []\<rparr>"

text \<open>A TV-images response whose only poster is tagged with another language.\<close>

definition tmdb_no_english_poster :: tmdb_images where
  "tmdb_no_english_poster =
     \<lparr>posters = [\<lparr>iso_639_1 = Some ''de'', file_path = ''/de.jpg'', width = 500\<rparr>],
      backdrops = [\<lparr>iso_639_1 = None, file_path = ''/b.jpg'', width = 1280\<rparr>]\<rparr>"

definition fanart_show_ok :: fanart_show where
  "fanart_show_ok =
     \<lparr>showbackground = Some [\<lparr>fanart_url = ''http://fanart/bg.jpg''\<rparr>],
      tvposter = Some [\<lparr>fanart_url = ''http://fanart/poster.jpg''\<rparr>],
      hdtvlogo = Some [\<lparr>fanart_url = ''http://fanart/logo.png''\<rparr>],
      tvthumb = Some [\<lparr>fanart_url = ''http://fanart/thumb.jpg''\<rparr>]\<rparr>"

section \<open>Properties of the movie torrent merge\<close>

lemma newTorrents_push:
  "newTorrents (push_newTorrents t st) = newTorrents st @ [t]"
  by (simp add: newTorrents_def push_newTorrents_def split: option.splits)

lemma find_Some_mem: "List.find P xs = Some x \<Longrightarrow> x \<in> set xs"
  by (induction xs) (auto split: if_splits)

lemma find_None_all: "List.find P xs = None \<longleftrightarrow> (\<forall>x \<in> set xs. \<not> P x)"
  by (induction xs) auto

lemma forEach_body_inv:
  assumes "merge_inv inc fs st" and "t \<in> set fs"
  shows "merge_inv inc fs (forEach_body t st)"
proof (cases "List.find (same_key t) (torrents_array st)")
  case None
  then have "\<forall>x \<in> set (torrents_array st). \<not> same_key t x"
    by (simp add: find_None_all)
  with assms have "\<not> (\<exists>x \<in> set inc. same_key t x)"
    by (auto simp: merge_inv_def)
  with assms None show ?thesis
    by (auto simp: merge_inv_def forEach_body_def push_newTorrents_def newTorrents_def
        split: option.splits)
next
  case (Some match)
  then have "match \<in> set (torrents_array st)"
    by (rule find_Some_mem)
  with assms Some show ?thesis
    by (auto simp: merge_inv_def forEach_body_def push_newTorrents_def newTorrents_def
        split: option.splits)
qed

lemma fold_forEach_body_inv:
  "merge_inv inc fs st \<Longrightarrow> set ts \<subseteq> set fs \<Longrightarrow> merge_inv inc fs (fold forEach_body ts st)"
  by (induction ts arbitrary: st) (auto simp: forEach_body_inv)

text \<open>
  A stored entry whose key has an incoming match is in the merged set only if it is an
  incoming entry itself, however many seeds it has.
\<close>

lemma updateTorrents_matched_stored_absent:
  assumes "s \<in> set stored" and "x \<in> set incoming" and "same_key s x"
      and "s \<notin> set incoming"
  shows "s \<notin> set (updateTorrents incoming stored)"
proof -
  have "merge_inv incoming stored \<lparr>torrents_array = incoming, rebound = None\<rparr>"
    by (simp add: merge_inv_def newTorrents_def)
  then have "merge_inv incoming stored
      (fold forEach_body stored \<lparr>torrents_array = incoming, rebound = None\<rparr>)"
    by (rule fold_forEach_body_inv) simp
  then have "set (updateTorrents incoming stored)
      \<subseteq> set incoming \<union> {t \<in> set stored. \<not> (\<exists>x \<in> set incoming. same_key t x)}"
    by (auto simp: merge_inv_def updateTorrents_def)
  with assms show ?thesis by auto
qed

text \<open>
  Claim C1 (seed tie-break). The claim asks that a stored entry with strictly more seeds
  than the incoming entry of the same (quality, language) key is the one in the merged
  set. The source compares the other way round (\<open>match.seeds > torrent.seeds\<close>, with
  \<open>match\<close> the incoming entry) and in that branch pushes \<open>match\<close> again; in the
  remaining case it does nothing. Stored 720p/en with 50 seeds against incoming 720p/en
  with 10 seeds: the merged set is the incoming entry alone, the stored one is gone.
\<close>

theorem updateTorrents_stored_better_dropped:
  "updateTorrents [mk_torrent ''720p'' ''en'' ''magnet:new'' 10]
                  [mk_torrent ''720p'' ''en'' ''magnet:old'' 50]
     = [mk_torrent ''720p'' ''en'' ''magnet:new'' 10]"
  by (simp add: updateTorrents_def forEach_body_def same_key_def newTorrents_def mk_torrent_def)

text \<open>
  Claim C2 (conjunctive removal). The claim asks that the removal step of the replacement
  branch removes only the entry with both the quality and the language of the stored
  entry. The source's filter keeps an entry only when its quality differs and its
  language differs as well, so it removes every entry that shares either of the two.
  Incoming 720p/en and 1080p/en (100 seeds) against stored 1080p/en (5 seeds): the
  replacement branch runs for 1080p/en and the incoming 720p/en entry, which has another
  quality, is removed with it.
\<close>

theorem updateTorrents_removal_drops_other_quality:
  "updateTorrents [mk_torrent ''720p'' ''en'' ''magnet:a'' 10,
                   mk_torrent ''1080p'' ''en'' ''magnet:b'' 100]
                  [mk_torrent ''1080p'' ''en'' ''magnet:c'' 5]
     = [mk_torrent ''1080p'' ''en'' ''magnet:b'' 100]"
  by (simp add: updateTorrents_def forEach_body_def same_key_def kept_by_filter_def
      newTorrents_def push_newTorrents_def mk_torrent_def)

text \<open>
  Claim C3 (no loss). The claim asks that a stored entry whose key has no match in the
  incoming set is in the merged set. The source pushes such an entry, but a later
  replacement for another key filters it out again when it shares the quality or the
  language. Stored 1080p/en (5 seeds) and 720p/en (50 seeds) against incoming 720p/en
  (100 seeds): 1080p/en has no incoming match and is pushed, then the replacement for
  720p/en removes every \<open>en\<close> entry; the stored 1080p/en entry is not in the result.
\<close>

theorem updateTorrents_unmatched_stored_lost:
  "updateTorrents [mk_torrent ''720p'' ''en'' ''magnet:a'' 100]
                  [mk_torrent ''1080p'' ''en'' ''magnet:s'' 5,
                   mk_torrent ''720p'' ''en'' ''magnet:t'' 50]
     = [mk_torrent ''720p'' ''en'' ''magnet:a'' 100]"
  by (simp add: updateTorrents_def forEach_body_def same_key_def kept_by_filter_def
      newTorrents_def push_newTorrents_def mk_torrent_def)

section \<open>Properties of the episode merge\<close>

lemma indexOf_bounds: "-1 \<le> indexOf xs x \<and> indexOf xs x < int (length xs)"
  by (induction xs) (auto simp: Let_def)

lemma indexOf_mem: "x \<in> set xs \<Longrightarrow> 0 \<le> indexOf xs x \<and> xs ! nat (indexOf xs x) = x"
  by (induction xs) (auto simp: Let_def nat_add_distrib)

text \<open>Replacing an element of the list by itself, at the index where it is found.\<close>

lemma splice1_indexOf:
  assumes "x \<in> set xs"
  shows "splice1 xs (indexOf xs x) x = xs"
proof -
  let ?i = "indexOf xs x"
  from assms have i0: "0 \<le> ?i" and at: "xs ! nat ?i = x"
    by (simp_all add: indexOf_mem)
  have lt: "nat ?i < length xs"
    using indexOf_bounds [of xs x] i0 by linarith
  have "min ?i (int (length xs)) = ?i"
    using lt i0 by linarith
  then have "splice1 xs ?i x = take (nat ?i) xs @ [x] @ drop (Suc (nat ?i)) xs"
    using i0 by (simp add: splice1_def Let_def)
  also have "\<dots> = xs"
    using lt at by (metis append_Cons append_Nil id_take_nth_drop)
  finally show ?thesis .
qed

text \<open>
  \<open>_updateEpisode\<close> returns the show as it got it, whatever the two torrents are: the
  torrent it selects stays in the local variable.
\<close>

lemma updateEpisode_unchanged:
  "matching \<in> set (episodes s) \<Longrightarrow> updateEpisode matching found s q = s"
  by (simp add: updateEpisode_def Let_def splice1_indexOf)

lemma merge_found_episode_matched:
  "List.find (same_episode e) (episodes s) = Some m \<Longrightarrow>
   merge_found_episode e s =
     (if first_aired e > latest_episode s then s\<lparr>latest_episode := first_aired e\<rparr> else s)"
  by (auto simp: merge_found_episode_def Let_def updateEpisode_unchanged dest: find_Some_mem)

lemma imdb_id_merge_found_episode [simp]:
  "imdb_id (merge_found_episode e s) = imdb_id s"
  by (cases "List.find (same_episode e) (episodes s)")
     (auto simp: merge_found_episode_def Let_def updateEpisode_def)

lemma imdb_id_fold_merge [simp]:
  "imdb_id (fold merge_found_episode es s) = imdb_id s"
  by (induction es arbitrary: s) auto

lemma merge_found_episode_num_seasons:
  "merge_found_episode e (s\<lparr>num_seasons := n\<rparr>) = (merge_found_episode e s)\<lparr>num_seasons := n\<rparr>"
  by (cases "List.find (same_episode e) (episodes s)")
     (auto simp: merge_found_episode_def Let_def updateEpisode_def)

lemma fold_merge_num_seasons:
  "fold merge_found_episode es (s\<lparr>num_seasons := n\<rparr>) =
   (fold merge_found_episode es s)\<lparr>num_seasons := n\<rparr>"
  by (induction es arbitrary: s) (auto simp: merge_found_episode_num_seasons)

lemma updateNumSeasons_ok:
  "updateNumSeasons s db = (Inr saved, db') \<Longrightarrow>
     saved = s\<lparr>num_seasons := card (season ` set (episodes s))\<rparr> \<and>
     docs db' (imdb_id s) = Some saved"
  by (auto simp: updateNumSeasons_def findOneAndUpdate_def distinct_seasons_def attempt_def
      length_remdups_card_conv Let_def
      split: list.splits if_splits bool.splits prod.splits sum.splits)

lemma updateNumSeasons_hand_set:
  "updateNumSeasons s db = (Inr saved, db') \<Longrightarrow>
   updateNumSeasons (s\<lparr>num_seasons := n\<rparr>) db = (Inr saved, db')"
  by (auto simp: updateNumSeasons_def findOneAndUpdate_def distinct_seasons_def attempt_def
      Let_def split: list.splits if_splits bool.splits prod.splits sum.splits)

lemma incoming_show_simps:
  "imdb_id incoming_show = ''tt1''" "episodes incoming_show = [incoming_s01e01]"
  "latest_episode incoming_show = 0"
  by (simp_all add: incoming_show_def mk_show_def)

lemma stored_show_simps:
  "episodes stored_show = [stored_s01e01]"
  by (simp_all add: stored_show_def mk_show_def)

lemma find_incoming_s01e01:
  "List.find (same_episode stored_s01e01) (episodes incoming_show) = Some incoming_s01e01"
  by (simp add: incoming_show_simps same_episode_def stored_s01e01_def incoming_s01e01_def
      mk_episode_def)

lemma merge_stored_s01e01:
  "fold merge_found_episode (episodes stored_show) incoming_show
     = incoming_show\<lparr>latest_episode := 100\<rparr>"
proof -
  have "first_aired stored_s01e01 = 100"
    by (simp add: stored_s01e01_def mk_episode_def)
  then show ?thesis
    by (simp add: stored_show_simps merge_found_episode_matched [OF find_incoming_s01e01]
        incoming_show_simps)
qed

lemma findOne_show_store:
  "findOne (imdb_id incoming_show) show_store = (Inr (Some stored_show), show_store)"
  by (simp add: findOne_def attempt_def show_store_def incoming_show_simps)

lemma updateNumSeasons_total:
  "faults db = [] \<Longrightarrow> \<exists>saved db'. updateNumSeasons s db = (Inr saved, db')"
  by (simp add: updateNumSeasons_def findOneAndUpdate_def distinct_seasons_def attempt_def Let_def)

text \<open>
  Claim C4 (per-quality reconciliation). The claim asks that, for a stored episode with a
  matching incoming episode, the stored torrent of a quality replaces the incoming one
  when it has strictly more seeds or the same URL. The source selects the stored torrent
  in that case but only assigns it to the local variable \<open>matchingTorrents\<close>; the episode
  put back by \<open>splice\<close> is the incoming one, untouched. Stored S01E01 with a 720p torrent
  of 50 seeds against incoming S01E01 with a 720p torrent of 10 seeds: the show that is
  persisted and returned holds the incoming episode with the 10-seed torrent.
\<close>

theorem updateEpisodes_keeps_incoming_torrent:
  "fst (updateEpisodes incoming_show show_store) = Some (incoming_show\<lparr>latest_episode := 100\<rparr>)
   \<and> map (\<lambda>e. map_of (ep_torrents e) ''720p'') (episodes (incoming_show\<lparr>latest_episode := 100\<rparr>))
       = [Some (mk_torrent ''720p'' ''en'' ''magnet:new'' 10)]"
proof -
  let ?s = "incoming_show\<lparr>latest_episode := 100\<rparr>"
  have "faults show_store = []" by (simp add: show_store_def)
  then obtain saved db' where u: "updateNumSeasons ?s show_store = (Inr saved, db')"
    using updateNumSeasons_total by blast
  from updateNumSeasons_ok [OF u] have "saved = ?s\<lparr>num_seasons := 1\<rparr>"
    by (simp add: incoming_show_simps)
  then have "saved = ?s"
    by (simp add: incoming_show_def mk_show_def)
  with u have "updateEpisodes incoming_show show_store = (Some ?s, db')"
    by (simp add: updateEpisodes_def findOne_show_store merge_stored_s01e01 caught_def)
  moreover have "map (\<lambda>e. map_of (ep_torrents e) ''720p'') (episodes ?s)
       = [Some (mk_torrent ''720p'' ''en'' ''magnet:new'' 10)]"
    by (simp add: incoming_show_simps incoming_s01e01_def mk_episode_def)
  ultimately show ?thesis by simp
qed

text \<open>
  Claim C7 (numSeasons invariant). Whenever \<open>_updateEpisodes\<close> yields a record, on the
  first-time save as on the update of an existing show, the record it yields is the one
  persisted under the show's id, its \<open>num_seasons\<close> is the number of distinct season
  numbers among its episodes, and the \<open>num_seasons\<close> the incoming show came with has no
  influence on the outcome.
\<close>

theorem updateEpisodes_num_seasons:
  assumes "updateEpisodes show db = (Some saved, db')"
  shows "num_seasons saved = card (season ` set (episodes saved))
       \<and> docs db' (imdb_id show) = Some saved
       \<and> updateEpisodes (show\<lparr>num_seasons := n\<rparr>) db = (Some saved, db')"
proof (cases "findOne (imdb_id show) db")
  case (Pair r db1)
  show ?thesis
  proof (cases r)
    case (Inl err)
    with Pair assms show ?thesis
      by (simp add: updateEpisodes_def)
  next
    case (Inr found)
    show ?thesis
    proof (cases found)
      case None
      with Pair Inr assms show ?thesis
        by (auto simp: updateEpisodes_def save_def updateNumSeasons_def findOneAndUpdate_def
            distinct_seasons_def attempt_def caught_def length_remdups_card_conv Let_def
            split: list.splits if_splits bool.splits prod.splits sum.splits)
    next
      case (Some f)
      let ?s = "fold merge_found_episode (episodes f) show"
      from Pair Inr Some assms have "caught (updateNumSeasons ?s db1) = (Some saved, db')"
        by (simp add: updateEpisodes_def)
      then have u: "updateNumSeasons ?s db1 = (Inr saved, db')"
        by (auto simp: caught_def split: prod.splits sum.splits)
      from updateNumSeasons_ok [OF u] updateNumSeasons_hand_set [OF u, of n]
      show ?thesis using Pair Inr Some
        by (simp add: updateEpisodes_def fold_merge_num_seasons caught_def)
    qed
  qed
qed

theorem updateEpisodes_num_seasons_witness:
  "updateEpisodes new_show empty_store =
     (Some (new_show\<lparr>num_seasons := 2\<rparr>),
      \<lparr>docs = [''tt2'' \<mapsto> new_show\<lparr>num_seasons := 2\<rparr>], faults = []\<rparr>)
   \<and> card (season ` set (episodes (new_show\<lparr>num_seasons := 2\<rparr>))) = 2
   \<and> updateEpisodes (new_show\<lparr>num_seasons := 7\<rparr>) empty_store =
     (Some (new_show\<lparr>num_seasons := 2\<rparr>),
      \<lparr>docs = [''tt2'' \<mapsto> new_show\<lparr>num_seasons := 2\<rparr>], faults = []\<rparr>)"
proof -
  have e: "episodes new_show = [mk_episode 1 1 10 [], mk_episode 1 2 20 [], mk_episode 2 1 30 []]"
    and k: "imdb_id new_show = ''tt2''"
    by (simp_all add: new_show_def mk_show_def)
  have d: "remdups (map season (episodes new_show)) = [1, 2]"
    by (simp add: e mk_episode_def)
  have h: "updateEpisodes new_show empty_store =
     (Some (new_show\<lparr>num_seasons := 2\<rparr>),
      \<lparr>docs = [''tt2'' \<mapsto> new_show\<lparr>num_seasons := 2\<rparr>], faults = []\<rparr>)"
    by (simp add: updateEpisodes_def findOne_def attempt_def save_def findOneAndUpdate_def
        updateNumSeasons_def distinct_seasons_def caught_def empty_store_def k d Let_def
        numeral_2_eq_2)
  from updateEpisodes_num_seasons [OF h, of 7] show ?thesis
    using h by simp
qed

section \<open>Properties of the movie upsert\<close>

lemma findOne_cases:
  "findOne k db = (r, db') \<Longrightarrow> (r = Inl StoreError \<or> r = Inr (docs db k)) \<and> docs db' = docs db"
  by (auto simp: findOne_def attempt_def split: list.splits if_splits bool.splits)

lemma findOneAndUpdate_ok:
  "findOneAndUpdate k d db = (Inr saved, db') \<Longrightarrow> saved = d \<and> docs db' k = Some d"
  by (auto simp: findOneAndUpdate_def attempt_def split: list.splits if_splits bool.splits)

lemma updateMovieInDb_found:
  assumes "docs db (doc_id m) = Some found"
      and "updateMovieInDb H m db = (Some saved, db')"
  shows "saved = keep_old_attributes found
           (case torrents found of
              Some ts \<Rightarrow> m\<lparr>torrents := formatTorrents H (torrents m) (torrents found)\<rparr>
            | None \<Rightarrow> m)
         \<and> docs db' (doc_id m) = Some saved"
proof (cases "findOne (doc_id m) db")
  case (Pair r db1)
  from findOne_cases [OF Pair] assms(1)
  have r: "r = Inl StoreError \<or> r = Inr (Some found)" by simp
  let ?m = "keep_old_attributes found
           (case torrents found of
              Some ts \<Rightarrow> m\<lparr>torrents := formatTorrents H (torrents m) (torrents found)\<rparr>
            | None \<Rightarrow> m)"
  have id: "doc_id ?m = doc_id m"
    by (simp add: keep_old_attributes_def split: option.splits)
  from r assms(2) Pair have "caught (findOneAndUpdate (doc_id ?m) ?m db1) = (Some saved, db')"
    by (auto simp: updateMovieInDb_def Let_def)
  then have "findOneAndUpdate (doc_id m) ?m db1 = (Inr saved, db')"
    by (auto simp: caught_def id split: prod.splits sum.splits)
  from findOneAndUpdate_ok [OF this] show ?thesis by simp
qed

lemma stored_movie_simps:
  "doc_id stored_movie = ''tt0133093''" "torrents stored_movie = Some [mk_torrent ''720p'' ''en'' ''magnet:old'' 50]"
  "bookmarked stored_movie = True" "watched stored_movie = \<lparr>complete = True, progress = 100\<rparr>"
  by (simp_all add: stored_movie_def draft_movie_def movie_of_summary_def)

lemma incoming_movie_simps:
  "doc_id incoming_movie = ''tt0133093''" "torrents incoming_movie = Some [mk_torrent ''1080p'' ''en'' ''magnet:new'' 10]"
  "bookmarked incoming_movie = False"
  by (simp_all add: incoming_movie_def draft_movie_def movie_of_summary_def)

lemma formatTorrents_spec_helper_example:
  "formatTorrents spec_helper (Some [mk_torrent ''1080p'' ''en'' ''magnet:new'' 10])
     (Some [mk_torrent ''720p'' ''en'' ''magnet:old'' 50])
   = Some [mk_torrent ''1080p'' ''en'' ''magnet:new'' 10,
           mk_torrent ''720p'' ''en'' ''magnet:old'' 50]"
  by (simp add: spec_helper_def spec_formatTorrents_def spec_merge_def spec_merge_entry_def
      same_key_def mk_torrent_def)

lemma updateMovieInDb_example:
  "fst (updateMovieInDb spec_helper incoming_movie movie_store) =
     Some (incoming_movie\<lparr>torrents := Some [mk_torrent ''1080p'' ''en'' ''magnet:new'' 10,
                                             mk_torrent ''720p'' ''en'' ''magnet:old'' 50],
             createdAt := 5, watched := \<lparr>complete = True, progress = 100\<rparr>,
             bookmarked := True, bookmarkedOn := Some 7, downloaded := Some True,
             downloading := Some False, downloadedOn := Some 8\<rparr>)"
proof -
  have k: "keep_old_attributes stored_movie
             (incoming_movie\<lparr>torrents := Some [mk_torrent ''1080p'' ''en'' ''magnet:new'' 10,
                                                 mk_torrent ''720p'' ''en'' ''magnet:old'' 50]\<rparr>)
           = incoming_movie\<lparr>torrents := Some [mk_torrent ''1080p'' ''en'' ''magnet:new'' 10,
                                               mk_torrent ''720p'' ''en'' ''magnet:old'' 50],
               createdAt := 5, watched := \<lparr>complete = True, progress = 100\<rparr>,
               bookmarked := True, bookmarkedOn := Some 7, downloaded := Some True,
               downloading := Some False, downloadedOn := Some 8\<rparr>"
    by (simp add: keep_old_attributes_def stored_movie_def)
  show ?thesis
    by (simp add: updateMovieInDb_def findOne_def attempt_def findOneAndUpdate_def caught_def
        movie_store_def incoming_movie_simps stored_movie_simps
        formatTorrents_spec_helper_example k Let_def)
qed

text \<open>
  Claim C9 (user-state frame condition), as the code has it. The claim says that, apart
  from the preserved user-state fields, all fields are overwritten by the incoming
  record. \<open>_updateMovieInDb\<close> first replaces the incoming \<open>torrents\<close> by
  \<open>this._formatTorrents(m.torrents, found.torrents)\<close> whenever the stored record has
  torrents, and writes that. Incoming torrents 1080p/en against a stored record with
  720p/en, merged as the spec describes: the written record has both entries, not the
  incoming record's single one.
\<close>

theorem updateMovieInDb_torrents_not_incoming:
  "map_option torrents (fst (updateMovieInDb spec_helper incoming_movie movie_store)) =
     Some (Some [mk_torrent ''1080p'' ''en'' ''magnet:new'' 10,
                 mk_torrent ''720p'' ''en'' ''magnet:old'' 50])
   \<and> torrents incoming_movie = Some [mk_torrent ''1080p'' ''en'' ''magnet:new'' 10]
   \<and> map_option torrents (fst (updateMovieInDb spec_helper incoming_movie movie_store))
       \<noteq> Some (torrents incoming_movie)"
  by (simp add: updateMovieInDb_example incoming_movie_simps)

text \<open>
  Claim C9, amended. Whenever a stored record exists for the id of the incoming movie and
  \<open>_updateMovieInDb\<close> yields a record, that record is the one written under the id; its
  \<open>bookmarked\<close>, \<open>bookmarkedOn\<close>, \<open>watched\<close>, \<open>downloaded\<close>, \<open>downloading\<close>,
  \<open>downloadedOn\<close> and \<open>createdAt\<close> are those of the stored record; \<open>torrents\<close> is
  \<open>_formatTorrents\<close> of the incoming and the stored torrents when the stored record has
  torrents, and the incoming record's otherwise; every other field is the incoming
  record's.
\<close>

theorem updateMovieInDb_preserves_user_state:
  assumes "docs db (doc_id m) = Some found"
      and "updateMovieInDb H m db = (Some saved, db')"
  shows "bookmarked saved = bookmarked found \<and> bookmarkedOn saved = bookmarkedOn found
       \<and> watched saved = watched found \<and> downloaded saved = downloaded found
       \<and> downloading saved = downloading found \<and> downloadedOn saved = downloadedOn found
       \<and> createdAt saved = createdAt found
       \<and> doc_id saved = doc_id m \<and> imdbId saved = imdbId m \<and> tmdbId saved = tmdbId m
       \<and> slug saved = slug m \<and> title saved = title m \<and> certification saved = certification m
       \<and> synopsis saved = synopsis m \<and> rating saved = rating m \<and> images saved = images m
       \<and> genres saved = genres m \<and> trailer saved = trailer m \<and> updatedAt saved = updatedAt m
       \<and> content_type saved = content_type m
       \<and> torrents saved = (case torrents found of
                              Some ts \<Rightarrow> formatTorrents H (torrents m) (torrents found)
                            | None \<Rightarrow> torrents m)
       \<and> docs db' (doc_id m) = Some saved"
  using updateMovieInDb_found [OF assms]
  by (simp add: keep_old_attributes_def split: option.splits)

theorem updateMovieInDb_preserves_user_state_witness:
  "docs movie_store (doc_id incoming_movie) = Some stored_movie
   \<and> fst (updateMovieInDb spec_helper incoming_movie movie_store) =
       Some (incoming_movie\<lparr>torrents := Some [mk_torrent ''1080p'' ''en'' ''magnet:new'' 10,
                                               mk_torrent ''720p'' ''en'' ''magnet:old'' 50],
               createdAt := 5, watched := \<lparr>complete = True, progress = 100\<rparr>,
               bookmarked := True, bookmarkedOn := Some 7, downloaded := Some True,
               downloading := Some False, downloadedOn := Some 8\<rparr>)
   \<and> torrents stored_movie = Some [mk_torrent ''720p'' ''en'' ''magnet:old'' 50]
   \<and> bookmarked stored_movie \<and> \<not> bookmarked incoming_movie
   \<and> title incoming_movie = ''The Matrix'' \<and> title stored_movie = ''The Matrix (old)''"
proof -
  let ?saved = "incoming_movie\<lparr>torrents := Some [mk_torrent ''1080p'' ''en'' ''magnet:new'' 10,
                                               mk_torrent ''720p'' ''en'' ''magnet:old'' 50],
               createdAt := 5, watched := \<lparr>complete = True, progress = 100\<rparr>,
               bookmarked := True, bookmarkedOn := Some 7, downloaded := Some True,
               downloading := Some False, downloadedOn := Some 8\<rparr>"
  let ?db' = "snd (updateMovieInDb spec_helper incoming_movie movie_store)"
  have f: "docs movie_store (doc_id incoming_movie) = Some stored_movie"
    by (simp add: movie_store_def incoming_movie_simps)
  have e: "fst (updateMovieInDb spec_helper incoming_movie movie_store) = Some ?saved"
    by (rule updateMovieInDb_example)
  then have u: "updateMovieInDb spec_helper incoming_movie movie_store = (Some ?saved, ?db')"
    by (simp add: prod_eq_iff)
  have t: "title incoming_movie = ''The Matrix''" "title stored_movie = ''The Matrix (old)''"
    by (simp_all add: incoming_movie_def stored_movie_def draft_movie_def movie_of_summary_def
        summary_ok_def)
  from updateMovieInDb_preserves_user_state [OF f u]
  have "bookmarked ?saved = bookmarked stored_movie"
    by (rule conjunct1)
  then have "bookmarked stored_movie"
    by simp
  moreover have "\<not> bookmarked incoming_movie"
    by (simp add: incoming_movie_simps)
  ultimately show ?thesis
    using f e t by (simp add: stored_movie_simps)
qed

section \<open>Properties of the image cascade\<close>

lemma only_fills_refl: "only_fills m m"
  by (simp add: only_fills_def)

lemma only_fills_trans:
  assumes "only_fills a b" and "only_fills b c"
  shows "only_fills a c"
  unfolding only_fills_def
proof (intro ballI impI)
  fix f assume f: "f \<in> set image_fields" and ne: "f (images c) \<noteq> f (images a)"
  from assms f have ab: "f (images b) \<noteq> f (images a) \<longrightarrow> \<not> truthy (f (images a)) \<and> truthy (f (images b))"
    and bc: "f (images c) \<noteq> f (images b) \<longrightarrow> \<not> truthy (f (images b)) \<and> truthy (f (images c))"
    by (simp_all add: only_fills_def)
  show "\<not> truthy (f (images a)) \<and> truthy (f (images c))"
  proof (cases "f (images b) = f (images a)")
    case True
    with ne bc show ?thesis by simp
  next
    case False
    with ab have "\<not> truthy (f (images a))" and tb: "truthy (f (images b))" by simp_all
    moreover from bc tb have "f (images c) = f (images b)" by blast
    ultimately show ?thesis using tb by simp
  qed
qed

lemma truthy_sizes_of_url [simp]: "truthy (sizes_of_url u)"
  by (simp add: sizes_of_url_def)

lemma truthy_chosen:
  "chosen picked current \<noteq> current \<Longrightarrow> truthy (chosen picked current)"
  by (cases picked) (simp_all add: chosen_def)

lemma pick1_truthy: "truthy current \<Longrightarrow> pick1 current xs = None"
  by (simp add: pick1_def split: option.splits)

lemma pick2_truthy: "truthy current \<Longrightarrow> pick2 current xs ys = None"
  by (simp add: pick2_def pick1_truthy split: option.splits)

lemma chosen_pick1: "chosen (pick1 c xs) c \<noteq> c \<Longrightarrow> \<not> truthy c \<and> truthy (chosen (pick1 c xs) c)"
  using pick1_truthy [of c xs] truthy_chosen [of "pick1 c xs" c] by (auto simp: chosen_def)

lemma chosen_pick2: "chosen (pick2 c xs ys) c \<noteq> c \<Longrightarrow> \<not> truthy c \<and> truthy (chosen (pick2 c xs ys) c)"
  using pick2_truthy [of c xs ys] truthy_chosen [of "pick2 c xs ys" c] by (auto simp: chosen_def)

lemma addOmdbImages_only_fills:
  "only_fills movie (outcome (addOmdbImages H movie response))"
  by (auto simp: addOmdbImages_def outcome_def catch_imdbId_def only_fills_def image_fields_def
      Let_def split: sum.splits option.splits)

lemma addFanartImages_only_fills:
  "only_fills movie (outcome (addFanartImages H movie response))"
  using chosen_pick1 chosen_pick2
  by (auto simp: addFanartImages_def outcome_def catch_tmdbId_def only_fills_def image_fields_def
      Let_def split: sum.splits)

lemma addImages_after_tmdb:
  "only_fills (outcome (addTmdbImages H movie rt)) (addImages H movie rt ro rf)"
proof (cases "addTmdbImages H movie rt")
  case (Inr m1)
  then show ?thesis by (simp add: addImages_def outcome_def only_fills_refl)
next
  case (Inl m1)
  have 1: "only_fills m1 (outcome (addOmdbImages H m1 ro))"
    by (rule addOmdbImages_only_fills)
  show ?thesis
  proof (cases "addOmdbImages H m1 ro")
    case (Inr m2)
    with Inl 1 show ?thesis by (simp add: addImages_def outcome_def)
  next
    case Inl2: (Inl m2)
    have "only_fills m2 (outcome (addFanartImages H m2 rf))"
      by (rule addFanartImages_only_fills)
    moreover from 1 Inl2 have "only_fills m1 m2" by (simp add: outcome_def)
    ultimately have "only_fills m1 (outcome (addFanartImages H m2 rf))"
      by (rule only_fills_trans [rotated])
    with Inl Inl2 show ?thesis
      by (simp add: addImages_def outcome_def split: sum.splits)
  qed
qed

text \<open>
  Where a filled field comes from: the response of the provider of that step. A provider
  whose call is rejected changes nothing.
\<close>

lemma addOmdbImages_from_response:
  "poster (images (outcome (addOmdbImages H movie (Inr i)))) \<noteq> poster (images movie) \<Longrightarrow>
   \<exists>p. Poster i = Some p \<and> p \<noteq> [] \<and>
       poster (images (outcome (addOmdbImages H movie (Inr i)))) = sizes_of_url p"
  by (auto simp: addOmdbImages_def outcome_def catch_imdbId_def Let_def
      split: option.splits if_splits)

lemma addOmdbImages_rejected_call:
  "outcome (addOmdbImages H movie (Inl e)) = movie"
  by (simp add: addOmdbImages_def outcome_def catch_imdbId_def)

lemma addFanartImages_rejected_call:
  "outcome (addFanartImages H movie (Inl e)) = movie"
  by (simp add: addFanartImages_def outcome_def catch_tmdbId_def)

lemma addTmdbImages_rejected_call:
  "outcome (addTmdbImages H movie (Inl e)) = movie"
  by (simp add: addTmdbImages_def outcome_def catch_tmdbId_def)

text \<open>Every step, and so the cascade, touches nothing but \<open>images\<close>.\<close>

lemma self_images: "\<exists>i. (m::movie) = m\<lparr>images := i\<rparr>"
  by (rule exI [of _ "images m"]) simp

lemma addTmdbImages_frame:
  "\<exists>i. outcome (addTmdbImages H movie r) = movie\<lparr>images := i\<rparr>"
  using self_images [of movie]
  by (auto simp: addTmdbImages_def outcome_def catch_tmdbId_def Let_def split: sum.splits)

lemma addOmdbImages_frame:
  "\<exists>i. outcome (addOmdbImages H movie r) = movie\<lparr>images := i\<rparr>"
  using self_images [of movie]
  by (auto simp: addOmdbImages_def outcome_def catch_imdbId_def Let_def split: sum.splits)

lemma addFanartImages_frame:
  "\<exists>i. outcome (addFanartImages H movie r) = movie\<lparr>images := i\<rparr>"
  using self_images [of movie]
  by (auto simp: addFanartImages_def outcome_def catch_tmdbId_def Let_def split: sum.splits)

lemma addImages_outcomes:
  "addImages H movie rt ro rf =
     (case addTmdbImages H movie rt of
        Inr m \<Rightarrow> m
      | Inl m1 \<Rightarrow> (case addOmdbImages H m1 ro of
                     Inr m \<Rightarrow> m
                   | Inl m2 \<Rightarrow> outcome (addFanartImages H m2 rf)))"
  by (simp add: addImages_def outcome_def split: sum.splits)

lemma addImages_frame:
  "\<exists>i. addImages H movie rt ro rf = movie\<lparr>images := i\<rparr>"
proof -
  obtain i1 where 1: "outcome (addTmdbImages H movie rt) = movie\<lparr>images := i1\<rparr>"
    using addTmdbImages_frame by blast
  obtain i2 where 2: "outcome (addOmdbImages H (movie\<lparr>images := i1\<rparr>) ro) = movie\<lparr>images := i2\<rparr>"
    using addOmdbImages_frame [of H "movie\<lparr>images := i1\<rparr>" ro] by auto
  obtain i3 where 3: "outcome (addFanartImages H (movie\<lparr>images := i2\<rparr>) rf) = movie\<lparr>images := i3\<rparr>"
    using addFanartImages_frame [of H "movie\<lparr>images := i2\<rparr>" rf] by auto
  show ?thesis
  proof (cases "addTmdbImages H movie rt")
    case (Inr m)
    with 1 show ?thesis by (auto simp: addImages_outcomes outcome_def)
  next
    case (Inl m1)
    with 1 have m1: "m1 = movie\<lparr>images := i1\<rparr>" by (simp add: outcome_def)
    show ?thesis
    proof (cases "addOmdbImages H m1 ro")
      case (Inr m)
      with Inl 2 m1 show ?thesis by (auto simp: addImages_outcomes outcome_def)
    next
      case Inl2: (Inl m2)
      with 2 m1 have "m2 = movie\<lparr>images := i2\<rparr>" by (simp add: outcome_def)
      with Inl Inl2 3 show ?thesis by (auto simp: addImages_outcomes)
    qed
  qed
qed

text \<open>
  Claim C6 (image cascade precedence). In the cascade TMDB, then OMDB, then Fanart: the
  OMDB step and the Fanart step change an image field only when it was unresolved
  (falsy, the source's test for "still placeholder") and then to a resolved image; so do
  the steps that follow TMDB in \<open>addImages\<close> taken together; and every field that is
  resolved after the TMDB step has the same value in the result of \<open>addImages\<close>,
  whatever the later providers return.
\<close>

theorem addImages_precedence:
  "only_fills movie (outcome (addOmdbImages H movie omdb_response))
   \<and> only_fills movie (outcome (addFanartImages H movie fanart_response))
   \<and> only_fills (outcome (addTmdbImages H movie tmdb_response))
        (addImages H movie tmdb_response omdb_response fanart_response)
   \<and> (\<forall>f \<in> set image_fields.
        truthy (f (images (outcome (addTmdbImages H movie tmdb_response)))) \<longrightarrow>
        f (images (addImages H movie tmdb_response omdb_response fanart_response)) =
        f (images (outcome (addTmdbImages H movie tmdb_response))))"
proof -
  have c: "only_fills (outcome (addTmdbImages H movie tmdb_response))
        (addImages H movie tmdb_response omdb_response fanart_response)"
    by (rule addImages_after_tmdb)
  then have "\<forall>f \<in> set image_fields.
        truthy (f (images (outcome (addTmdbImages H movie tmdb_response)))) \<longrightarrow>
        f (images (addImages H movie tmdb_response omdb_response fanart_response)) =
        f (images (outcome (addTmdbImages H movie tmdb_response)))"
    unfolding only_fills_def by blast
  with c show ?thesis
    by (simp add: addOmdbImages_only_fills addFanartImages_only_fills)
qed

lemma draft_movie_simps:
  "images draft_movie = \<lparr>banner = NoImage, backdrop = NoImage, poster = NoImage, logo = NoImage\<rparr>"
  "tmdbId draft_movie = 603" "imdbId draft_movie = ''tt0133093''"
  by (simp_all add: draft_movie_def movie_of_summary_def spec_helper_def)

lemma spec_helper_simps:
  "DefaultImageSizes spec_helper = NoImage"
  "checkImages spec_helper = spec_checkImages"
  "formatImdbImage spec_helper p = sizes_of_url (''https://image.tmdb.org/t/p/original'' @ p)"
  by (simp_all add: spec_helper_def)

lemma tmdb_poster_only_step:
  "addTmdbImages spec_helper draft_movie (Inr tmdb_poster_only) =
     Inl (draft_movie\<lparr>images :=
       \<lparr>banner = NoImage, backdrop = NoImage,
        poster = sizes_of_url ''https://image.tmdb.org/t/p/original/p.jpg'',
        logo = NoImage\<rparr>\<rparr>)"
  by (simp add: addTmdbImages_def tmdb_poster_only_def spec_helper_simps spec_checkImages_def
      shift_def en_or_untagged_def catch_tmdbId_def draft_movie_simps Let_def)

lemma poster_only_cascade:
  "addImages spec_helper draft_movie (Inr tmdb_poster_only) (Inr omdb_with_poster)
     (Inr fanart_poster_backdrop) =
   draft_movie\<lparr>images :=
       \<lparr>banner = NoImage,
        backdrop = sizes_of_url ''http://fanart/bg.jpg'',
        poster = sizes_of_url ''https://image.tmdb.org/t/p/original/p.jpg'',
        logo = NoImage\<rparr>\<rparr>"
  by (simp add: addImages_def tmdb_poster_only_step addOmdbImages_def addFanartImages_def
      fanart_poster_backdrop_def pick1_def pick2_def chosen_def shift_def spec_helper_simps
      spec_checkImages_def catch_tmdbId_def draft_movie_simps Let_def)

theorem addImages_precedence_witness:
  "images (addImages spec_helper draft_movie (Inr tmdb_poster_only) (Inr omdb_with_poster)
     (Inr fanart_poster_backdrop)) =
     \<lparr>banner = NoImage,
      backdrop = sizes_of_url ''http://fanart/bg.jpg'',
      poster = sizes_of_url ''https://image.tmdb.org/t/p/original/p.jpg'',
      logo = NoImage\<rparr>
   \<and> poster \<in> set image_fields
   \<and> truthy (poster (images (outcome
         (addTmdbImages spec_helper draft_movie (Inr tmdb_poster_only)))))
   \<and> poster (images (addImages spec_helper draft_movie (Inr tmdb_poster_only)
         (Inr omdb_with_poster) (Inr fanart_poster_backdrop))) =
       poster (images (outcome (addTmdbImages spec_helper draft_movie (Inr tmdb_poster_only))))
   \<and> backdrop \<in> set image_fields
   \<and> backdrop (images (addImages spec_helper draft_movie (Inr tmdb_poster_only)
         (Inr omdb_with_poster) (Inr fanart_poster_backdrop))) \<noteq>
       backdrop (images (outcome (addTmdbImages spec_helper draft_movie (Inr tmdb_poster_only))))
   \<and> \<not> truthy (backdrop (images (outcome
         (addTmdbImages spec_helper draft_movie (Inr tmdb_poster_only)))))"
proof -
  let ?m1 = "outcome (addTmdbImages spec_helper draft_movie (Inr tmdb_poster_only))"
  let ?final = "addImages spec_helper draft_movie (Inr tmdb_poster_only) (Inr omdb_with_poster)
     (Inr fanart_poster_backdrop)"
  have p: "poster \<in> set image_fields" and b: "backdrop \<in> set image_fields"
    by (simp_all add: image_fields_def)
  have t: "truthy (poster (images ?m1))"
    by (simp add: tmdb_poster_only_step outcome_def)
  have n: "backdrop (images ?final) \<noteq> backdrop (images ?m1)"
    by (simp add: tmdb_poster_only_step poster_only_cascade outcome_def sizes_of_url_def)
  note inst = addImages_precedence [where movie = draft_movie and H = spec_helper
      and omdb_response = "Inr omdb_with_poster"
      and fanart_response = "Inr fanart_poster_backdrop"
      and tmdb_response = "Inr tmdb_poster_only"]
  from inst p t have "poster (images ?final) = poster (images ?m1)"
    by blast
  moreover from inst b n have "\<not> truthy (backdrop (images ?m1))"
    unfolding only_fills_def by blast
  ultimately show ?thesis
    using p b t n by (simp add: poster_only_cascade)
qed

section \<open>Properties of \<open>getTraktInfo\<close>\<close>

lemma rating_addImages [simp]: "rating (addImages H movie rt ro rf) = rating movie"
proof -
  obtain i where "addImages H movie rt ro rf = movie\<lparr>images := i\<rparr>"
    using addImages_frame by blast
  then show ?thesis by simp
qed

lemma usable_stringE:
  "usable_string x \<Longrightarrow> \<exists>s. x = Some s \<and> s \<noteq> []"
  by (cases x) (simp_all add: usable_string_def)

lemma usable_numberE:
  "usable_number x \<Longrightarrow> \<exists>n. x = Some n \<and> n \<noteq> 0"
  by (cases x) (simp_all add: usable_number_def)

text \<open>
  Claim C8 (watching count), as the code has it. The claim says that a failure of the
  "currently watching" call leaves the fetch resolved with \<open>watching\<close> 0. The call is
  awaited inside the \<open>try\<close> of \<open>getTraktInfo\<close>: when it is rejected, so is
  \<open>getTraktInfo\<close>. Here the summary is fetched with all its ids and the watching call
  is rejected with status 500.
\<close>

theorem MovieHelper_getTraktInfo_watching_rejected:
  "MovieHelper_getTraktInfo spec_helper 1000 ''the-matrix'' (Inr (Some summary_ok))
     (Inl (HttpError 500)) (Inr tmdb_poster_only) (Inr omdb_with_poster)
     (Inr fanart_poster_backdrop)
   = Inl (TraktInfoFailure (HttpError 500))"
  by (simp add: MovieHelper_getTraktInfo_def rejection_def)

text \<open>
  Claim C8, amended. For a summary with usable imdb and tmdb ids: when the watching call
  is resolved without a list (\<open>null\<close> or \<open>undefined\<close>), \<open>getTraktInfo\<close> is resolved with
  a movie whose \<open>rating.watching\<close> is 0; when it is resolved with a list, \<open>watching\<close> is
  its length; when the watching call is rejected, \<open>getTraktInfo\<close> is rejected.
\<close>

theorem MovieHelper_getTraktInfo_watching:
  assumes "usable_string (ids_imdb (s_ids ts))" and "usable_number (ids_tmdb (s_ids ts))"
  shows "(\<exists>m. MovieHelper_getTraktInfo H now traktSlug (Inr (Some ts)) (Inr None) rt ro rf
               = Inr (Some m) \<and> watching (rating m) = 0)
       \<and> (\<exists>m. MovieHelper_getTraktInfo H now traktSlug (Inr (Some ts)) (Inr (Some ws)) rt ro rf
               = Inr (Some m) \<and> watching (rating m) = length ws)
       \<and> MovieHelper_getTraktInfo H now traktSlug (Inr (Some ts)) (Inl e) rt ro rf
               = Inl (rejection traktSlug e)"
proof -
  from assms obtain imdb tmdb where
    "ids_imdb (s_ids ts) = Some imdb" "imdb \<noteq> []" "ids_tmdb (s_ids ts) = Some tmdb" "tmdb \<noteq> 0"
    using usable_stringE usable_numberE by blast
  then show ?thesis
    by (simp add: MovieHelper_getTraktInfo_def movie_of_summary_def watching_count_def)
qed

lemma summary_ok_ids:
  "ids_imdb (s_ids summary_ok) = Some ''tt0133093''" "ids_tmdb (s_ids summary_ok) = Some 603"
  "ids_tvdb (s_ids summary_ok) = Some 77" "s_airs summary_ok = Some (''Monday'', ''20:00'')"
  by (simp_all add: summary_ok_def)

theorem MovieHelper_getTraktInfo_watching_witness:
  "usable_string (ids_imdb (s_ids summary_ok)) \<and> usable_number (ids_tmdb (s_ids summary_ok))
   \<and> (\<exists>m. MovieHelper_getTraktInfo spec_helper 1000 ''the-matrix'' (Inr (Some summary_ok))
             (Inr None) (Inr tmdb_poster_only) (Inr omdb_with_poster)
             (Inr fanart_poster_backdrop) = Inr (Some m) \<and> watching (rating m) = 0)
   \<and> MovieHelper_getTraktInfo spec_helper 1000 ''the-matrix'' (Inr (Some summary_ok))
        (Inl ProviderError) (Inr tmdb_poster_only) (Inr omdb_with_poster)
        (Inr fanart_poster_backdrop) = Inl (TraktInfoFailure ProviderError)"
proof -
  have a: "usable_string (ids_imdb (s_ids summary_ok))"
    and b: "usable_number (ids_tmdb (s_ids summary_ok))"
    by (simp_all add: summary_ok_ids usable_string_def usable_number_def)
  from MovieHelper_getTraktInfo_watching [OF a b, where H = spec_helper and now = 1000
      and traktSlug = "''the-matrix''" and rt = "Inr tmdb_poster_only"
      and ro = "Inr omdb_with_poster" and rf = "Inr fanart_poster_backdrop" and ws = "[]"
      and e = ProviderError]
  show ?thesis using a b by (simp add: rejection_def)
qed

text \<open>
  Claim C5 (missing cross-reference ids), as the code has it. The claim says that a
  summary without one of the required ids makes \<open>getTraktInfo\<close> fail. The test of the
  ids guards the only \<open>return\<close> of the \<open>try\<close> block and has no \<open>else\<close>: nothing is
  thrown, and the promise is resolved with \<open>undefined\<close>. Here the summary of a show has
  its imdb and tmdb ids and no tvdb id.
\<close>

theorem ShowHelper_getTraktInfo_without_tvdb_resolves:
  "ShowHelper_getTraktInfo 1000 (Inr (Some summary_without_tvdb)) (Inr (Some []))
     (Inr tmdb_poster_only) (Inr fanart_show_ok) = Inr None"
  by (simp add: ShowHelper_getTraktInfo_def summary_without_tvdb_def summary_ok_def)

text \<open>
  Claim C5, amended. A summary that is present and lacks a usable imdb, tmdb or (for a
  show) tvdb id does not make \<open>getTraktInfo\<close> reject: once the watching call is resolved,
  the promise is resolved with no record. A summary that is absent does the same for a
  movie and rejects with the \<open>TypeError\<close> of reading its ids for a show. A rejected
  summary call is propagated as a rejection.
\<close>

theorem getTraktInfo_missing_ids:
  "(\<not> (usable_string (ids_imdb (s_ids ts)) \<and> usable_number (ids_tmdb (s_ids ts))
        \<and> usable_number (ids_tvdb (s_ids ts))) \<longrightarrow>
      ShowHelper_getTraktInfo now (Inr (Some ts)) (Inr ws) rt rf = Inr None)
   \<and> (\<not> (usable_string (ids_imdb (s_ids ts)) \<and> usable_number (ids_tmdb (s_ids ts))) \<longrightarrow>
      MovieHelper_getTraktInfo H now traktSlug (Inr (Some ts)) (Inr ws) rt ro rf' = Inr None)
   \<and> MovieHelper_getTraktInfo H now traktSlug (Inr None) (Inr ws) rt ro rf' = Inr None
   \<and> ShowHelper_getTraktInfo now (Inr None) (Inr ws) rt rf = Inl TypeError
   \<and> MovieHelper_getTraktInfo H now traktSlug (Inl e) w rt ro rf' = Inl (rejection traktSlug e)
   \<and> ShowHelper_getTraktInfo now (Inl e) w rt rf = Inl e"
  by (auto simp: ShowHelper_getTraktInfo_def MovieHelper_getTraktInfo_def usable_string_def
      usable_number_def split: option.splits)

theorem getTraktInfo_missing_ids_witness:
  "\<not> (usable_string (ids_imdb (s_ids summary_without_tvdb))
      \<and> usable_number (ids_tmdb (s_ids summary_without_tvdb))
      \<and> usable_number (ids_tvdb (s_ids summary_without_tvdb)))
   \<and> ShowHelper_getTraktInfo 1000 (Inr (Some summary_without_tvdb)) (Inr None)
        (Inr tmdb_poster_only) (Inr fanart_show_ok) = Inr None
   \<and> \<not> (usable_string (ids_imdb (s_ids summary_without_imdb))
        \<and> usable_number (ids_tmdb (s_ids summary_without_imdb)))
   \<and> MovieHelper_getTraktInfo spec_helper 1000 ''the-matrix'' (Inr (Some summary_without_imdb))
        (Inr None) (Inr tmdb_poster_only) (Inr omdb_with_poster) (Inr fanart_poster_backdrop)
      = Inr None"
proof -
  have a: "\<not> (usable_string (ids_imdb (s_ids summary_without_tvdb))
      \<and> usable_number (ids_tmdb (s_ids summary_without_tvdb))
      \<and> usable_number (ids_tvdb (s_ids summary_without_tvdb)))"
    by (simp add: summary_without_tvdb_def usable_number_def)
  have b: "\<not> (usable_string (ids_imdb (s_ids summary_without_imdb))
        \<and> usable_number (ids_tmdb (s_ids summary_without_imdb)))"
    by (simp add: summary_without_imdb_def usable_string_def)
  from getTraktInfo_missing_ids [where ts = summary_without_tvdb and now = 1000
      and ws = None and rt = "Inr tmdb_poster_only" and rf = "Inr fanart_show_ok"] a
  have "ShowHelper_getTraktInfo 1000 (Inr (Some summary_without_tvdb)) (Inr None)
        (Inr tmdb_poster_only) (Inr fanart_show_ok) = Inr None"
    by blast
  moreover
  from getTraktInfo_missing_ids [where ts = summary_without_imdb and H = spec_helper
      and now = 1000 and traktSlug = "''the-matrix''" and ws = None
      and rt = "Inr tmdb_poster_only" and ro = "Inr omdb_with_poster"
      and rf' = "Inr fanart_poster_backdrop"] b
  have "MovieHelper_getTraktInfo spec_helper 1000 ''the-matrix''
        (Inr (Some summary_without_imdb)) (Inr None) (Inr tmdb_poster_only)
        (Inr omdb_with_poster) (Inr fanart_poster_backdrop) = Inr None"
    by blast
  ultimately show ?thesis
    using a b by simp
qed

section \<open>Properties of the show images\<close>

text \<open>
  Claim C10 (no English or untagged image). For every TMDB TV-images response whose
  posters tagged \<open>en\<close> or untagged are none, and likewise for its backdrops,
  \<open>_getTmdbImages\<close> is rejected with the \<open>TypeError\<close> of reading \<open>file_path\<close> of
  \<open>undefined\<close>, before its test for \<open>null\<close>; \<open>getImages\<close> is rejected with it, Fanart
  not being asked; and \<open>getTraktInfo\<close> of a show whose summary has all three ids is
  rejected with it, instead of resolving with Fanart's images.
\<close>

theorem getTmdbImages_no_english_image:
  assumes "filter en_or_untagged (posters i) = [] \<or> filter en_or_untagged (backdrops i) = []"
  shows "getTmdbImages (Inr i) = Inl TypeError
       \<and> getImages (Inr i) fanart_response = Inl TypeError
       \<and> (usable_string (ids_imdb (s_ids ts)) \<and> usable_number (ids_tmdb (s_ids ts))
            \<and> usable_number (ids_tvdb (s_ids ts)) \<longrightarrow>
          ShowHelper_getTraktInfo now (Inr (Some ts)) (Inr ws) (Inr i) fanart_response
            = Inl TypeError)"
proof -
  from assms have t: "getTmdbImages (Inr i) = Inl TypeError"
    by (auto simp: getTmdbImages_def Let_def split: list.splits)
  then have g: "getImages (Inr i) fanart_response = Inl TypeError"
    by (simp add: getImages_def)
  have "ShowHelper_getTraktInfo now (Inr (Some ts)) (Inr ws) (Inr i) fanart_response
            = Inl TypeError"
    if "usable_string (ids_imdb (s_ids ts))" "usable_number (ids_tmdb (s_ids ts))"
       "usable_number (ids_tvdb (s_ids ts))"
  proof -
    from that obtain imdb tmdb tvdb where
      "ids_imdb (s_ids ts) = Some imdb" "imdb \<noteq> []" "ids_tmdb (s_ids ts) = Some tmdb"
      "tmdb \<noteq> 0" "ids_tvdb (s_ids ts) = Some tvdb" "tvdb \<noteq> 0"
      using usable_stringE usable_numberE by blast
    then show ?thesis
      by (simp add: ShowHelper_getTraktInfo_def g)
  qed
  with t g show ?thesis by blast
qed

theorem getTmdbImages_no_english_image_witness:
  "filter en_or_untagged (posters tmdb_no_english_poster) = []
   \<and> getTmdbImages (Inr tmdb_no_english_poster) = Inl TypeError
   \<and> getImages (Inr tmdb_no_english_poster) (Inr fanart_show_ok) = Inl TypeError
   \<and> usable_string (ids_imdb (s_ids summary_ok)) \<and> usable_number (ids_tmdb (s_ids summary_ok))
   \<and> usable_number (ids_tvdb (s_ids summary_ok))
   \<and> ShowHelper_getTraktInfo 1000 (Inr (Some summary_ok)) (Inr (Some []))
        (Inr tmdb_no_english_poster) (Inr fanart_show_ok) = Inl TypeError
   \<and> (\<exists>images'. getFanartImages (Inr fanart_show_ok) = Inr images')"
proof -
  have p: "filter en_or_untagged (posters tmdb_no_english_poster) = []"
    by (simp add: tmdb_no_english_poster_def en_or_untagged_def)
  then have h: "filter en_or_untagged (posters tmdb_no_english_poster) = []
      \<or> filter en_or_untagged (backdrops tmdb_no_english_poster) = []"
    by simp
  have u: "usable_string (ids_imdb (s_ids summary_ok))"
    "usable_number (ids_tmdb (s_ids summary_ok))" "usable_number (ids_tvdb (s_ids summary_ok))"
    by (simp_all add: summary_ok_ids usable_string_def usable_number_def)
  have f: "\<exists>images'. getFanartImages (Inr fanart_show_ok) = Inr images'"
    by (simp add: getFanartImages_def fanart_show_ok_def first_url_def)
  from getTmdbImages_no_english_image [OF h, where fanart_response = "Inr fanart_show_ok"
      and ts = summary_ok and now = 1000 and ws = "Some []"]
  show ?thesis using p u f by simp
qed

end
